theory Spec2Isabelle
  imports Complex_Main "HOL-Library.AList"
begin

section \<open>Python values used by the client\<close>

text \<open>
  Exceptions and process exits of the script are values.  \<open>SystemExit\<close> carries the
  argument given to \<open>sys.exit\<close>.
\<close>

datatype py_error =
    KeyError string
  | ZeroDivisionError
  | OverflowError
  | TypeError
  | ValueError
  | EOFError
  | OSError
  | SystemExit int

text \<open>
  A JSON number is a Python \<open>int\<close> or a Python \<open>float\<close>.  An int is unbounded and
  int arithmetic is exact.  A float is a double, represented by the rational it denotes.
  Only finite floats are values here: \<open>inf\<close> and \<open>nan\<close> (from \<open>Infinity\<close> and
  \<open>NaN\<close> in the JSON, or from a float operation that overflows) are outside this model.
\<close>

datatype pynum = PInt int | PFloat rat

fun val :: "pynum \<Rightarrow> rat" where
  "val (PInt i) = of_int i"
| "val (PFloat x) = x"

fun is_float :: "pynum \<Rightarrow> bool" where
  "is_float (PInt i) = False"
| "is_float (PFloat x) = True"

text \<open>
  How a result is rounded to a double is the interpreter's business and is not spelled
  out here: the float operations are parameters.
  \<^item> \<open>ar_float i\<close> is \<open>float(i)\<close> for an int within the range of a float;
  \<^item> \<open>ar_idiv a b\<close> is the float \<open>a / b\<close> for ints with \<open>b\<close> not zero and the
    quotient within the range of a float;
  \<^item> \<open>ar_fadd\<close>, \<open>ar_fmul\<close> and \<open>ar_fdiv\<close> are \<open>+\<close>, \<open>*\<close> and \<open>/\<close> on two
    floats (the divisor not zero);
  \<^item> \<open>ar_round x n\<close> is \<open>round(x, n)\<close> for a float.
\<close>

record arith =
  ar_float :: "int \<Rightarrow> rat"
  ar_idiv :: "int \<Rightarrow> int \<Rightarrow> rat"
  ar_fadd :: "rat \<Rightarrow> rat \<Rightarrow> rat"
  ar_fmul :: "rat \<Rightarrow> rat \<Rightarrow> rat"
  ar_fdiv :: "rat \<Rightarrow> rat \<Rightarrow> rat"
  ar_round :: "rat \<Rightarrow> nat \<Rightarrow> rat"

text \<open>
  The least magnitude that rounds beyond the largest double.  An int of at least this
  magnitude has no float (\<open>OverflowError: int too large to convert to float\<close>), and
  so has a quotient of two ints (\<open>OverflowError: integer division result too large for
  a float\<close>).
\<close>

definition float_limit :: rat where
  "float_limit = 2 ^ 1024 - 2 ^ 970"

text \<open>The conversion of an operand when the other operand is a float.\<close>

fun to_float :: "arith \<Rightarrow> pynum \<Rightarrow> py_error + rat" where
  "to_float ar (PInt i) =
     (if float_limit \<le> \<bar>of_int i\<bar> then Inl OverflowError else Inr (ar_float ar i))"
| "to_float ar (PFloat x) = Inr x"

text \<open>
  \<open>a + b\<close> and \<open>a * b\<close>: exact on two ints; otherwise both operands are converted,
  the left one first, and the float operation is applied.
\<close>

fun py_add :: "arith \<Rightarrow> pynum \<Rightarrow> pynum \<Rightarrow> py_error + pynum" where
  "py_add ar (PInt a) (PInt b) = Inr (PInt (a + b))"
| "py_add ar a b =
     (case to_float ar a of
        Inl e \<Rightarrow> Inl e
      | Inr x \<Rightarrow>
          (case to_float ar b of
             Inl e \<Rightarrow> Inl e
           | Inr y \<Rightarrow> Inr (PFloat (ar_fadd ar x y))))"

fun py_mul :: "arith \<Rightarrow> pynum \<Rightarrow> pynum \<Rightarrow> py_error + pynum" where
  "py_mul ar (PInt a) (PInt b) = Inr (PInt (a * b))"
| "py_mul ar a b =
     (case to_float ar a of
        Inl e \<Rightarrow> Inl e
      | Inr x \<Rightarrow>
          (case to_float ar b of
             Inl e \<Rightarrow> Inl e
           | Inr y \<Rightarrow> Inr (PFloat (ar_fmul ar x y))))"

text \<open>
  True division \<open>a / b\<close>, always a float.  On two ints the divisor is tested first
  (\<open>ZeroDivisionError\<close>), then the size of the quotient (\<open>OverflowError\<close>).  With a
  float operand both operands are converted first (\<open>OverflowError\<close>) and the divisor is
  tested after that.
\<close>

fun py_truediv :: "arith \<Rightarrow> pynum \<Rightarrow> pynum \<Rightarrow> py_error + pynum" where
  "py_truediv ar (PInt a) (PInt b) =
     (if b = 0 then Inl ZeroDivisionError
      else if float_limit \<le> \<bar>of_int a / of_int b\<bar> then Inl OverflowError
      else Inr (PFloat (ar_idiv ar a b)))"
| "py_truediv ar a b =
     (case to_float ar a of
        Inl e \<Rightarrow> Inl e
      | Inr x \<Rightarrow>
          (case to_float ar b of
             Inl e \<Rightarrow> Inl e
           | Inr y \<Rightarrow>
               if y = 0 then Inl ZeroDivisionError else Inr (PFloat (ar_fdiv ar x y))))"

text \<open>\<open>round(x, n)\<close>: an int stays as it is for the \<open>n\<close> used here, a float is rounded.\<close>

fun py_round :: "arith \<Rightarrow> pynum \<Rightarrow> nat \<Rightarrow> pynum" where
  "py_round ar (PInt i) n = PInt i"
| "py_round ar (PFloat x) n = PFloat (ar_round ar x n)"

text \<open>
  Rounding a rational to an integer and to \<open>n\<close> decimals, ties to the even neighbour
  (what \<open>"%.2f"\<close> does with the exact value of a float).
\<close>

definition round_half_even :: "rat \<Rightarrow> int" where
  "round_half_even x =
     (let f = \<lfloor>x\<rfloor>; d = x - of_int f
      in if d < 1 / 2 then f else if 1 / 2 < d then f + 1 else if even f then f else f + 1)"

definition round_to :: "nat \<Rightarrow> rat \<Rightarrow> rat" where
  "round_to n x = of_int (round_half_even (x * 10 ^ n)) / 10 ^ n"

text \<open>
  A \<open>dict\<close> keeps insertion order: an association list with distinct keys, read with
  \<open>map_of\<close>, written with \<open>AList.update\<close> (in place when the key exists, appended
  otherwise).  \<open>d[k]\<close> raises \<open>KeyError\<close> on a missing key.
\<close>

type_synonym ('k, 'v) dict = "('k \<times> 'v) list"

definition getitem :: "(string, 'v) dict \<Rightarrow> string \<Rightarrow> py_error + 'v" where
  "getitem d k = (case map_of d k of None \<Rightarrow> Inl (KeyError k) | Some v \<Rightarrow> Inr v)"

section \<open>Strings\<close>

definition newline :: string where
  "newline = [CHR 0x0A]"

text \<open>\<open>sep.join(xs)\<close>.\<close>

fun py_join :: "string \<Rightarrow> string list \<Rightarrow> string" where
  "py_join sep [] = []"
| "py_join sep [x] = x"
| "py_join sep (x # y # ys) = x @ sep @ py_join sep (y # ys)"

text \<open>
  \<open>str.upper\<close>, \<open>str.lower\<close> and \<open>str.capitalize\<close> on ASCII text (a character
  is a byte here; the Unicode case mappings are outside this model).
\<close>

definition upper_char :: "char \<Rightarrow> char" where
  "upper_char c =
     (let n = of_char c :: int in if 97 \<le> n \<and> n \<le> 122 then char_of (n - 32) else c)"

definition lower_char :: "char \<Rightarrow> char" where
  "lower_char c =
     (let n = of_char c :: int in if 65 \<le> n \<and> n \<le> 90 then char_of (n + 32) else c)"

definition upper :: "string \<Rightarrow> string" where
  "upper s = map upper_char s"

definition capitalize :: "string \<Rightarrow> string" where
  "capitalize s = (case s of [] \<Rightarrow> [] | c # cs \<Rightarrow> upper_char c # map lower_char cs)"

text \<open>
  Decimal text of an integer: \<open>str(i)\<close>, \<open>"%s" % i\<close>.  \<open>str_digits\<close> writes
  the digits of a number that is not negative.
\<close>

definition digit_char :: "int \<Rightarrow> char" where
  "digit_char d = char_of (48 + d)"

function str_digits :: "int \<Rightarrow> string" where
  "str_digits n =
     (if n < 10 then [digit_char n] else str_digits (n div 10) @ [digit_char (n mod 10)])"
  by pat_completeness auto
termination
  by (relation "measure nat") auto

definition str_int :: "int \<Rightarrow> string" where
  "str_int i = (if i < 0 then CHR ''-'' # str_digits (- i) else str_digits i)"

text \<open>
  \<open>"%.2f" % x\<close>: the sign, the integer part, a point and two decimals, the value rounded
  to the nearest hundredth with ties to even.
\<close>

definition fmt_2f :: "rat \<Rightarrow> string" where
  "fmt_2f x =
     (let h = round_half_even (\<bar>x\<bar> * 100)
      in (if x < 0 then [CHR ''-''] else []) @ str_digits (h div 100) @ [CHR ''.''] @
         [digit_char (h mod 100 div 10), digit_char (h mod 10)])"

text \<open>
  \<open>"%s" % x\<close> for a number.  The text of an int is its decimal numeral; the text of a
  float is the interpreter's shortest round-trip representation, taken as the parameter
  \<open>float_repr\<close>.
\<close>

fun str_num :: "(rat \<Rightarrow> string) \<Rightarrow> pynum \<Rightarrow> string" where
  "str_num float_repr (PInt i) = str_int i"
| "str_num float_repr (PFloat x) = float_repr x"

text \<open>
  \<open>int(s)\<close> on ASCII text: optional surrounding whitespace, an optional sign, then
  decimal digits in which single underscores may separate digits.  \<open>None\<close> stands for
  the \<open>ValueError\<close> of an unparsable string.
\<close>

definition is_space :: "char \<Rightarrow> bool" where
  "is_space c = (let n = of_char c :: int in (9 \<le> n \<and> n \<le> 13) \<or> n = 32)"

definition is_digit :: "char \<Rightarrow> bool" where
  "is_digit c = (let n = of_char c :: int in 48 \<le> n \<and> n \<le> 57)"

definition digit_val :: "char \<Rightarrow> int" where
  "digit_val c = of_char c - 48"

definition strip :: "string \<Rightarrow> string" where
  "strip s = rev (dropWhile is_space (rev (dropWhile is_space s)))"

fun parse_digits :: "int \<Rightarrow> string \<Rightarrow> int option" where
  "parse_digits acc [] = Some acc"
| "parse_digits acc [c] = (if is_digit c then Some (acc * 10 + digit_val c) else None)"
| "parse_digits acc (c # d # cs) =
     (if is_digit c then parse_digits (acc * 10 + digit_val c) (d # cs)
      else if c = CHR ''_'' \<and> is_digit d then parse_digits acc (d # cs)
      else None)"

definition parse_unsigned :: "string \<Rightarrow> int option" where
  "parse_unsigned s =
     (case s of [] \<Rightarrow> None | c # cs \<Rightarrow> if is_digit c then parse_digits 0 s else None)"

definition py_int :: "string \<Rightarrow> int option" where
  "py_int s =
     (case strip s of
        [] \<Rightarrow> None
      | c # cs \<Rightarrow>
          if c = CHR ''-'' then map_option uminus (parse_unsigned cs)
          else if c = CHR ''+'' then parse_unsigned cs
          else parse_unsigned (c # cs))"

section \<open>The indicator catalogue\<close>

record catalog_entry =
  ce_id :: string
  ce_indicator :: string
  ce_priority :: string

text \<open>
  A dict display \<open>{k1: v1, k2: v2, ...}\<close> stores its items from left to right, so a key
  written twice keeps its first position and its last value.
\<close>

definition dict_display :: "('k \<times> 'v) list \<Rightarrow> ('k, 'v) dict" where
  "dict_display items = foldl (\<lambda>d (k, v). AList.update k v d) [] items"

definition FAIR_RDA_INDICATORS :: "(string, catalog_entry) dict" where
  "FAIR_RDA_INDICATORS = dict_display
    [
     (''RDA_F1_01M'',
      \<lparr>ce_id = ''RDA-F1-01M'',
       ce_indicator = ''Metadata is identified by a persistent identifier'',
       ce_priority = ''Essential (***)''\<rparr>),
     (''RDA_F1_01D'',
      \<lparr>ce_id = ''RDA-F1-01D'',
       ce_indicator = ''Data is identified by a persistent identifier'',
       ce_priority = ''Essential (***)''\<rparr>),
     (''RDA_F1_02M'',
      \<lparr>ce_id = ''RDA-F1-02M'',
       ce_indicator = ''Metadata is identified by a globally unique identifier'',
       ce_priority = ''Essential (***)''\<rparr>),
     (''RDA_F1_02D'',
      \<lparr>ce_id = ''RDA-F1-02D'',
       ce_indicator = ''Data is identified by a persistent identifier'',
       ce_priority = ''Essential (***)''\<rparr>),
     (''RDA_F2_01M'',
      \<lparr>ce_id = ''RDA-F2-01M'',
       ce_indicator = ''Rich metadata is provided to allow discovery'',
       ce_priority = ''Essential (***)''\<rparr>),
     (''RDA_F3_01M'',
      \<lparr>ce_id = ''RDA-F3-01M'',
       ce_indicator = ''Metadata includes the identifier for the data'',
       ce_priority = ''Essential (***)''\<rparr>),
     (''RDA_F4_01M'',
      \<lparr>ce_id = ''RDA-F4-01M'',
       ce_indicator = ''Metadata is offered in such a way that it can be harvested and indexed'',
       ce_priority = ''Essential (***)''\<rparr>),
     (''RDA_A1_01M'',
      \<lparr>ce_id = ''RDA-A1-01M'',
       ce_indicator = ''Metadata contains information to enable the user to get access to the data'',
       ce_priority = ''Important (**)''\<rparr>),
     (''RDA_A1_02M'',
      \<lparr>ce_id = ''RDA-A1-02M'',
       ce_indicator = ''Metadata can be accessed manually (i.e. with human intervention)'',
       ce_priority = ''Essential (***)''\<rparr>),
     (''RDA_A1_02D'',
      \<lparr>ce_id = ''RDA-A1-02D'',
       ce_indicator = ''Data can be accessed manually (i.e. with human intervention)'',
       ce_priority = ''Essential (***)''\<rparr>),
     (''RDA_A1_03M'',
      \<lparr>ce_id = ''RDA-A1-03M'',
       ce_indicator = ''Metadata identifier resolves to a metadata record'',
       ce_priority = ''Essential (***)''\<rparr>),
     (''RDA_A1_02D'',
      \<lparr>ce_id = ''RDA-A1-02D'',
       ce_indicator = ''Data can be accessed manually (i.e. with human intervention)'',
       ce_priority = ''Essential (***)''\<rparr>),
     (''RDA_A1_03D'',
      \<lparr>ce_id = ''RDA-A1-03D'',
       ce_indicator = ''Data identifier resolves to a digital object'',
       ce_priority = ''Essential (***)''\<rparr>),
     (''RDA_A1_04M'',
      \<lparr>ce_id = ''RDA-A1-04M'',
       ce_indicator = ''Metadata is accessed through standardised protocol'',
       ce_priority = ''Essential (***)''\<rparr>),
     (''RDA_A1_04D'',
      \<lparr>ce_id = ''RDA-A1-04D'',
       ce_indicator = ''Data is accessed through standardised protocol'',
       ce_priority = ''Essential (***)''\<rparr>),
     (''RDA_A1_05D'',
      \<lparr>ce_id = ''RDA-A1-05D'',
       ce_indicator = ''Data can be accessed automatically (i.e. by a computer program)'',
       ce_priority = ''Important (**)''\<rparr>),
     (''RDA_A1_1_01M'',
      \<lparr>ce_id = ''RDA-A1.1-01M'',
       ce_indicator = ''Metadata is accessible through a free access protocol'',
       ce_priority = ''Essential (***)''\<rparr>),
     (''RDA_A1_1_01D'',
      \<lparr>ce_id = ''RDA-A1.1-01D'',
       ce_indicator = ''Data is accessible through a free access protocol'',
       ce_priority = ''Important (**)''\<rparr>),
     (''RDA_A1_2_01D'',
      \<lparr>ce_id = ''RDA-A1.2-01D'',
       ce_indicator = ''Data is accessible through an access protocol that supports authentication and authorisation'',
       ce_priority = ''Useful (*)''\<rparr>),
     (''RDA_A2_01M'',
      \<lparr>ce_id = ''RDA-A2-01M'',
       ce_indicator = ''Metadata is guaranteed to remain available after data is no longer available'',
       ce_priority = ''Essential (***)''\<rparr>),
     (''RDA_I1_01M'',
      \<lparr>ce_id = ''RDA-I1-01M'',
       ce_indicator = ''Metadata uses knowledge representation expressed in standardised format'',
       ce_priority = ''Important (**)''\<rparr>),
     (''RDA_I1_01D'',
      \<lparr>ce_id = ''RDA-I1-01D'',
       ce_indicator = ''Data uses knowledge representation expressed in standardised format'',
       ce_priority = ''Important (**)''\<rparr>),
     (''RDA_I1_02M'',
      \<lparr>ce_id = ''RDA-I1-02M'',
       ce_indicator = ''Metadata uses machine-understandable knowledge representation'',
       ce_priority = ''Important (**)''\<rparr>),
     (''RDA_I1_02D'',
      \<lparr>ce_id = ''RDA-I1-02D'',
       ce_indicator = ''Data uses machine-understandable knowledge representation'',
       ce_priority = ''Important (**)''\<rparr>),
     (''RDA_I2_01M'',
      \<lparr>ce_id = ''RDA-I2-01M'',
       ce_indicator = ''Metadata uses FAIR-compliant vocabularies'',
       ce_priority = ''Important (**)''\<rparr>),
     (''RDA_I2_01D'',
      \<lparr>ce_id = ''RDA-I2-01D'',
       ce_indicator = ''Data uses FAIR-compliant vocabularies'',
       ce_priority = ''Useful (*)''\<rparr>),
     (''RDA_I3_01M'',
      \<lparr>ce_id = ''RDA-I3-01M'',
       ce_indicator = ''Metadata includes references to other metadata'',
       ce_priority = ''Important (**)''\<rparr>),
     (''RDA_I3_01D'',
      \<lparr>ce_id = ''RDA-I3-01D'',
       ce_indicator = ''Data includes references to other data'',
       ce_priority = ''Useful (*)''\<rparr>),
     (''RDA_I3_02M'',
      \<lparr>ce_id = ''RDA-I3-02M'',
       ce_indicator = ''Metadata includes references to other data'',
       ce_priority = ''Important (**)''\<rparr>),
     (''RDA_I3_02D'',
      \<lparr>ce_id = ''RDA-I3-02D'',
       ce_indicator = ''Data includes qualified references to other data'',
       ce_priority = ''Useful (*)''\<rparr>),
     (''RDA_I3_03M'',
      \<lparr>ce_id = ''RDA-I3-03M'',
       ce_indicator = ''Metadata includes qualified references to other metadata'',
       ce_priority = ''Important (**)''\<rparr>),
     (''RDA_I3_04M'',
      \<lparr>ce_id = ''RDA-I3-04M'',
       ce_indicator = ''Metadata includes qualified references to other data'',
       ce_priority = ''Useful (*)''\<rparr>),
     (''RDA_R1_01M'',
      \<lparr>ce_id = ''RDA-R1-01M'',
       ce_indicator = ''Plurality of accurate and relevant attributes are provided to allow reuse'',
       ce_priority = ''Essential (***)''\<rparr>),
     (''RDA_R1_1_01M'',
      \<lparr>ce_id = ''RDA-R1.1-01M'',
       ce_indicator = ''Metadata includes information about the licence under which the data can be reused'',
       ce_priority = ''Essential (***)''\<rparr>),
     (''RDA_R1_1_02M'',
      \<lparr>ce_id = ''RDA-R1.1-02M'',
       ce_indicator = ''Metadata refers to a standard reuse licence'',
       ce_priority = ''Important (**)''\<rparr>),
     (''RDA_R1_1_03M'',
      \<lparr>ce_id = ''RDA-R1.1-03M'',
       ce_indicator = ''Metadata refers to a machine understandable reuse licence'',
       ce_priority = ''Important (**)''\<rparr>),
     (''RDA_R1_2_01M'',
      \<lparr>ce_id = ''RDA-R1.2-01M'',
       ce_indicator = ''Metadata includes provenance information according to community-specific standards'',
       ce_priority = ''Important (**)''\<rparr>),
     (''RDA_R1_2_02M'',
      \<lparr>ce_id = ''RDA-R1.2-02M'',
       ce_indicator = ''Metadata includes provenance information according to a cross-community language'',
       ce_priority = ''Useful (*)''\<rparr>),
     (''RDA_R1_3_01M'',
      \<lparr>ce_id = ''RDA-R1.3-01M'',
       ce_indicator = ''Metadata complies with a community standard'',
       ce_priority = ''Essential (***)''\<rparr>),
     (''RDA_R1_3_01D'',
      \<lparr>ce_id = ''RDA-R1.3-01D'',
       ce_indicator = ''Data complies with a community standard'',
       ce_priority = ''Essential (***)''\<rparr>),
     (''RDA_R1_3_02M'',
      \<lparr>ce_id = ''RDA-R1.3-02M'',
       ce_indicator = ''Metadata is expressed in compliance with a machine-understandable community standard'',
       ce_priority = ''Essential (***)''\<rparr>),
     (''RDA_R1_3_02D'',
      \<lparr>ce_id = ''RDA-R1.3-02D'',
       ce_indicator = ''Data is expressed in compliance with a machine-understandable community standard'',
       ce_priority = ''Important (**)''\<rparr>)
    ]"

section \<open>Data model\<close>

definition FAIR_PRINCIPLES :: "string list" where
  "FAIR_PRINCIPLES = [''findable'', ''accessible'', ''interoperable'', ''reusable'']"

text \<open>
  The message of an indicator: plain text, one mapping (kept opaque, type \<open>'d\<close>), or a
  list whose items are text or \<open>{message, points}\<close> records with either key optional.
\<close>

record msg_record =
  mr_message :: "string option"
  mr_points :: "pynum option"

datatype msg_item = IStr string | IRec msg_record

datatype 'd message = MStr string | MDict 'd | MList "msg_item list"

text \<open>
  One raw indicator result.  \<open>ir_weight\<close> is \<open>["score"]["weight"]\<close>;
  \<open>ir_indicator\<close> and \<open>ir_name_smart\<close> are the two display fields that
  \<open>calcpoints\<close> attaches.
\<close>

record 'd indicator_result =
  ir_name :: string
  ir_points :: pynum
  ir_weight :: pynum
  ir_msg :: "'d message option"
  ir_indicator :: "string option"
  ir_name_smart :: "string option"

type_synonym 'd principle_result = "(string, 'd indicator_result) dict"

type_synonym 'd evaluation_result = "(string, 'd principle_result) dict"

section \<open>calcpoints\<close>

text \<open>
  The inner loop over the indicators of one principle.  The accumulator is
  \<open>(weight_of_tests, g_weight, result_points, g_points)\<close>; the loop also returns the
  principle's indicators with the display fields set.  \<open>ar\<close> is the interpreter's float
  arithmetic, \<open>gettext\<close> the translation function of the i18n library.
\<close>

fun indicator_loop ::
  "arith \<Rightarrow> (string \<Rightarrow> string) \<Rightarrow> 'd principle_result \<Rightarrow> pynum \<times> pynum \<times> pynum \<times> pynum
     \<Rightarrow> py_error + ((pynum \<times> pynum \<times> pynum \<times> pynum) \<times> 'd principle_result)" where
  "indicator_loop ar gettext [] acc = Inr (acc, [])"
| "indicator_loop ar gettext ((kk, ind) # rest)
       (weight_of_tests, g_weight, result_points, g_points) =
     (let ind' = ind\<lparr>ir_indicator := Some (gettext (ir_name ind @ ''.indicator'')),
                     ir_name_smart := Some (gettext (ir_name ind))\<rparr>;
          weight = ir_weight ind
      in case py_add ar weight_of_tests weight of
           Inl e \<Rightarrow> Inl e
         | Inr weight_of_tests' \<Rightarrow>
      (case py_add ar g_weight weight of
           Inl e \<Rightarrow> Inl e
         | Inr g_weight' \<Rightarrow>
      (case py_mul ar (ir_points ind) weight of
           Inl e \<Rightarrow> Inl e
         | Inr product \<Rightarrow>
      (case py_add ar result_points product of
           Inl e \<Rightarrow> Inl e
         | Inr result_points' \<Rightarrow>
      (case py_mul ar (ir_points ind) weight of
           Inl e \<Rightarrow> Inl e
         | Inr product' \<Rightarrow>
      (case py_add ar g_points product' of
           Inl e \<Rightarrow> Inl e
         | Inr g_points' \<Rightarrow>
      (case indicator_loop ar gettext rest
              (weight_of_tests', g_weight', result_points', g_points') of
           Inl e \<Rightarrow> Inl e
         | Inr (acc, rest') \<Rightarrow> Inr (acc, (kk, ind') # rest'))))))))"

text \<open>
  The outer loop over \<open>keys[:-1]\<close>.  It threads the \<open>points\<close> dict, the two grand
  totals and the (mutated) result.
\<close>

fun principle_loop ::
  "arith \<Rightarrow> (string \<Rightarrow> string) \<Rightarrow> string list \<Rightarrow> 'd evaluation_result
     \<Rightarrow> (string, pynum) dict \<Rightarrow> pynum \<times> pynum
     \<Rightarrow> py_error + ((string, pynum) dict \<times> pynum \<times> pynum \<times> 'd evaluation_result)" where
  "principle_loop ar gettext [] result points (result_points, weight_of_tests) =
     Inr (points, result_points, weight_of_tests, result)"
| "principle_loop ar gettext (key # keys) result points (result_points, weight_of_tests) =
     (case getitem result key of
        Inl e \<Rightarrow> Inl e
      | Inr inds \<Rightarrow>
          (case indicator_loop ar gettext inds (weight_of_tests, PInt 0, result_points, PInt 0) of
             Inl e \<Rightarrow> Inl e
           | Inr ((weight_of_tests', g_weight, result_points', g_points), inds') \<Rightarrow>
               (case py_truediv ar g_points g_weight of
                  Inl e \<Rightarrow> Inl e
                | Inr q \<Rightarrow>
                    principle_loop ar gettext keys (AList.update key inds' result)
                      (AList.update key (py_round ar q 3) points)
                      (result_points', weight_of_tests'))))"

definition calcpoints ::
  "arith \<Rightarrow> (string \<Rightarrow> string) \<Rightarrow> 'd evaluation_result
     \<Rightarrow> py_error + ((string, pynum) dict \<times> 'd evaluation_result)" where
  "calcpoints ar gettext result =
     (let keys = FAIR_PRINCIPLES @ [''total''];
          values = [PInt 0, PInt 0, PInt 0, PInt 0, PInt 0];
          points = zip keys values
      in case principle_loop ar gettext (butlast keys) result points (PInt 0, PInt 0) of
           Inl e \<Rightarrow> Inl e
         | Inr (points', result_points, weight_of_tests, result') \<Rightarrow>
             (case py_truediv ar result_points weight_of_tests of
                Inl e \<Rightarrow> Inl e
              | Inr q \<Rightarrow> Inr (AList.update ''total'' (py_round ar q 2) points', result')))"

section \<open>format_msg_for_table\<close>

text \<open>
  \<open>"\n".join(message_data)\<close> raises \<open>TypeError\<close> when an item is not text.
\<close>

fun text_items :: "msg_item list \<Rightarrow> py_error + string list" where
  "text_items [] = Inr []"
| "text_items (IStr s # rest) =
     (case text_items rest of Inl e \<Rightarrow> Inl e | Inr ss \<Rightarrow> Inr (s # ss))"
| "text_items (IRec r # rest) = Inl TypeError"

text \<open>
  \<open>"%s (points: %s)" % (item["message"], item["points"])\<close>: indexing a text item with
  a key is a \<open>TypeError\<close>, a missing key a \<open>KeyError\<close>.
\<close>

fun annotated :: "(rat \<Rightarrow> string) \<Rightarrow> msg_item \<Rightarrow> py_error + string" where
  "annotated float_repr (IStr s) = Inl TypeError"
| "annotated float_repr (IRec r) =
     (case mr_message r of
        None \<Rightarrow> Inl (KeyError ''message'')
      | Some m \<Rightarrow>
          (case mr_points r of
             None \<Rightarrow> Inl (KeyError ''points'')
           | Some p \<Rightarrow> Inr (m @ '' (points: '' @ str_num float_repr p @ '')'')))"

fun annotated_items :: "(rat \<Rightarrow> string) \<Rightarrow> msg_item list \<Rightarrow> py_error + string list" where
  "annotated_items float_repr [] = Inr []"
| "annotated_items float_repr (item # rest) =
     (case annotated float_repr item of
        Inl e \<Rightarrow> Inl e
      | Inr s \<Rightarrow>
          (case annotated_items float_repr rest of Inl e \<Rightarrow> Inl e | Inr ss \<Rightarrow> Inr (s # ss)))"

text \<open>
  \<open>str_dict\<close> is \<open>str\<close> on the mapping, \<open>float_repr\<close> the text of a float.
\<close>

definition format_msg_for_table ::
  "('d \<Rightarrow> string) \<Rightarrow> (rat \<Rightarrow> string) \<Rightarrow> 'd message \<Rightarrow> py_error + string" where
  "format_msg_for_table str_dict float_repr message_data =
     (case message_data of
        MStr s \<Rightarrow> Inr s
      | MDict d \<Rightarrow> Inr (str_dict d)
      | MList items \<Rightarrow>
          (if length items > 0 then
             (case hd items of
                IStr s0 \<Rightarrow> map_sum id (py_join newline) (text_items items)
              | IRec r0 \<Rightarrow>
                  (if length items > 1 then
                     map_sum id (py_join newline) (annotated_items float_repr items)
                   else if length items = 1 then
                     Inr (case mr_message r0 of Some m \<Rightarrow> m | None \<Rightarrow> ''Not available'')
                   else Inr ''Not available''))
           else Inr ''Not available''))"

section \<open>collect_score_data\<close>

text \<open>A table cell holds text or a number.\<close>

datatype cell = CStr string | CNum pynum

text \<open>The first loop: \<open>fair_results[principle]\<close> for each principle, in order.\<close>

fun indicators_by_principle ::
  "string list \<Rightarrow> 'd evaluation_result
     \<Rightarrow> py_error + (string, 'd indicator_result list) dict" where
  "indicators_by_principle [] fair_results = Inr []"
| "indicators_by_principle (principle # rest) fair_results =
     (case getitem fair_results principle of
        Inl e \<Rightarrow> Inl e
      | Inr principle_result \<Rightarrow>
          (case indicators_by_principle rest fair_results of
             Inl e \<Rightarrow> Inl e
           | Inr d \<Rightarrow> Inr ((principle, map snd principle_result) # d)))"

definition score_row ::
  "('d \<Rightarrow> string) \<Rightarrow> (rat \<Rightarrow> string) \<Rightarrow> 'd indicator_result \<Rightarrow> py_error + cell list" where
  "score_row str_dict float_repr indicator_result =
     (case format_msg_for_table str_dict float_repr
             (case ir_msg indicator_result of None \<Rightarrow> MList [] | Some m \<Rightarrow> m) of
        Inl e \<Rightarrow> Inl e
      | Inr output_message \<Rightarrow>
          (let points = (case ir_points indicator_result of
                           PFloat x \<Rightarrow> CStr (fmt_2f x)
                         | PInt i \<Rightarrow> CNum (PInt i));
               indicator_id_internal = upper (ir_name indicator_result)
           in case getitem FAIR_RDA_INDICATORS indicator_id_internal of
                Inl e \<Rightarrow> Inl e
              | Inr indicator_rda_data \<Rightarrow>
                  Inr [CStr (ce_id indicator_rda_data),
                       CStr (ce_indicator indicator_rda_data),
                       points,
                       CStr output_message]))"

fun score_rows ::
  "('d \<Rightarrow> string) \<Rightarrow> (rat \<Rightarrow> string) \<Rightarrow> 'd indicator_result list
     \<Rightarrow> py_error + cell list list" where
  "score_rows str_dict float_repr [] = Inr []"
| "score_rows str_dict float_repr (indicator_result # rest) =
     (case score_row str_dict float_repr indicator_result of
        Inl e \<Rightarrow> Inl e
      | Inr row \<Rightarrow>
          (case score_rows str_dict float_repr rest of
             Inl e \<Rightarrow> Inl e
           | Inr rows \<Rightarrow> Inr (row # rows)))"

definition collect_score_data ::
  "('d \<Rightarrow> string) \<Rightarrow> (rat \<Rightarrow> string) \<Rightarrow> 'd evaluation_result \<Rightarrow> py_error + cell list list" where
  "collect_score_data str_dict float_repr fair_results =
     (case indicators_by_principle FAIR_PRINCIPLES fair_results of
        Inl e \<Rightarrow> Inl e
      | Inr by_principle \<Rightarrow> score_rows str_dict float_repr (concat (map snd by_principle)))"

section \<open>print_table\<close>

text \<open>
  A table of the table library: the field names and the rows in the order added, each
  with the \<open>divider\<close> flag it was added with.  \<open>add_row\<close> refuses a row whose length
  is not the number of fields.
\<close>

record pretty_table =
  field_names :: "string list"
  table_rows :: "(cell list \<times> bool) list"

definition add_row :: "cell list \<Rightarrow> bool \<Rightarrow> pretty_table \<Rightarrow> py_error + pretty_table" where
  "add_row row divider table =
     (if length row \<noteq> length (field_names table) then Inl ValueError
      else Inr (table\<lparr>table_rows := table_rows table @ [(row, divider)]\<rparr>))"

fun add_rows :: "cell list list \<Rightarrow> pretty_table \<Rightarrow> py_error + pretty_table" where
  "add_rows [] table = Inr table"
| "add_rows (row # rows) table =
     (case add_row row False table of Inl e \<Rightarrow> Inl e | Inr table' \<Rightarrow> add_rows rows table')"

text \<open>
  What the library draws between the header and the bottom border: every row, and a
  horizontal rule under each row that carries the divider flag.
\<close>

datatype table_line = Row "cell list" | Rule

fun table_body :: "(cell list \<times> bool) list \<Rightarrow> table_line list" where
  "table_body [] = []"
| "table_body ((row, divider) # rest) =
     (if divider then [Row row, Rule] else [Row row]) @ table_body rest"

text \<open>
  The loop over \<open>totals.items()\<close>, with the state
  \<open>(principle_count, has_divider, table_summary)\<close>.
\<close>

fun summary_loop ::
  "nat \<Rightarrow> (string \<times> pynum) list \<Rightarrow> nat \<times> bool \<times> pretty_table \<Rightarrow> py_error + pretty_table" where
  "summary_loop principle_len [] (principle_count, has_divider, table_summary) =
     Inr table_summary"
| "summary_loop principle_len ((principle_name, principle_score) # rest)
       (principle_count, has_divider, table_summary) =
     (let principle_count' = principle_count + 1;
          has_divider' = (if principle_count' = principle_len then True else has_divider);
          score_cell = (case principle_score of
                          PFloat x \<Rightarrow> CStr (fmt_2f x)
                        | PInt i \<Rightarrow> CNum (PInt i))
      in case add_row [CStr (capitalize principle_name), score_cell] has_divider' table_summary of
           Inl e \<Rightarrow> Inl e
         | Inr table_summary' \<Rightarrow>
             summary_loop principle_len rest (principle_count', has_divider', table_summary'))"

text \<open>\<open>print_table\<close> returns the tables in the order it prints them.\<close>

definition print_table ::
  "cell list list \<Rightarrow> (string, pynum) dict \<Rightarrow> py_error + pretty_table list" where
  "print_table indicator_rows totals =
     (case add_rows indicator_rows
             \<lparr>field_names = [''ID'', ''Indicator'', ''Score'', ''Output''], table_rows = []\<rparr> of
        Inl e \<Rightarrow> Inl e
      | Inr table \<Rightarrow>
          (if totals \<noteq> [] then
             (let table_summary = \<lparr>field_names = [''FAIR principle'', ''Score''], table_rows = []\<rparr>;
                  total_score = (case map_of totals ''total'' of
                                   None \<Rightarrow> CStr ''NA''
                                 | Some v \<Rightarrow> CNum v);
                  totals' = AList.delete ''total'' totals;
                  principle_len = length totals'
              in case summary_loop principle_len totals' (0, False, table_summary) of
                   Inl e \<Rightarrow> Inl e
                 | Inr table_summary' \<Rightarrow>
                     (case add_row [CStr ''Total'', total_score] False table_summary' of
                        Inl e \<Rightarrow> Inl e
                      | Inr table_summary'' \<Rightarrow> Inr [table_summary'', table]))
           else Inr [table]))"

section \<open>The process: arguments, environment, effects\<close>

record args =
  arg_id :: "string option"
  arg_plugin :: "string option"
  arg_repository :: "string option"
  arg_api_endpoint :: string
  arg_json :: bool
  arg_totals :: bool
  arg_logs :: bool
  arg_search :: "string option"
  arg_store_feather :: bool
  arg_store_csv :: bool

record candidate =
  cand_title :: string
  cand_id :: string

text \<open>
  The JSON of the search response, as far as \<open>search\<close> reads it: \<open>NoResults\<close> when
  \<open>terms.get("results", {})\<close> is falsy, otherwise the value under
  \<open>"distributions"\<close> if that key is there.
\<close>

datatype search_terms = NoResults | Results "candidate list option"

record post_data =
  pd_id :: string
  pd_repo :: "string option"
  pd_oai_base :: string
  pd_lang :: string

record 'd response =
  resp_status :: nat
  resp_results :: "(string, 'd evaluation_result) dict"
  resp_logs :: "string list option"

record endpoints_response =
  ep_status :: nat
  ep_endpoint :: string
  ep_keys :: string

text \<open>
  A data frame: the column labels and the rows, a cell being a value or missing.  The
  content of a written file is a frame (Feather) or the header and the records of a CSV
  file.
\<close>

record data_frame =
  df_columns :: "cell list"
  df_rows :: "cell option list list"

datatype file_content =
    FeatherFile data_frame
  | CsvFile "cell list" "cell option list list"

text \<open>
  What the process does to the outside, in order.  Log lines are not recorded.
\<close>

datatype 'd event =
    Connect string nat
  | Sleep nat
  | HttpGet string "(string \<times> string) list"
  | HttpPost string post_data
  | Prompt string
  | PrintText string
  | PrintTable pretty_table
  | PrintResults "'d evaluation_result"
  | WriteFile string file_content

text \<open>
  The outside world.  \<open>connect_ex addr n\<close> is the result of the \<open>n\<close>-th connection
  attempt of the run (from 0) when it goes to \<open>addr\<close>; an HTTP call returns a response
  or raises.  \<open>w_arith\<close> is the interpreter's float arithmetic.  \<open>w_gettext\<close>,
  \<open>w_str_dict\<close>, \<open>w_float_repr\<close> and \<open>w_to_numeric\<close> are the library functions the
  script calls: translation, \<open>str\<close> of a mapping, the text of a float, and
  \<open>pd.to_numeric\<close> on a column, which gives a column of numbers and missing values or
  raises.  \<open>w_can_create path\<close> says whether the file system lets the process create the
  file.
\<close>

record 'd world =
  connect_ex :: "string \<times> nat \<Rightarrow> nat \<Rightarrow> int"
  get_endpoints :: "string \<Rightarrow> py_error + endpoints_response"
  get_search :: "string \<Rightarrow> (string \<times> string) list \<Rightarrow> py_error + search_terms"
  post_evaluation :: "string \<Rightarrow> post_data \<Rightarrow> py_error + 'd response"
  w_gettext :: "string \<Rightarrow> string"
  w_str_dict :: "'d \<Rightarrow> string"
  w_float_repr :: "rat \<Rightarrow> string"
  w_to_numeric :: "cell option list \<Rightarrow> py_error + pynum option list"
  w_arith :: arith
  w_can_create :: "string \<Rightarrow> bool"

text \<open>
  The state of the run: the effects so far, the lines still to be read from standard
  input, and the global \<open>title\<close>.
\<close>

record 'd state =
  st_trace :: "'d event list"
  st_stdin :: "string list"
  st_title :: "string option"

definition emit :: "'d event \<Rightarrow> 'd state \<Rightarrow> 'd state" where
  "emit e st = st\<lparr>st_trace := st_trace st @ [e]\<rparr>"

definition init_state :: "string list \<Rightarrow> 'd state" where
  "init_state inp = \<lparr>st_trace = [], st_stdin = inp, st_title = None\<rparr>"

fun is_connect :: "'d event \<Rightarrow> bool" where
  "is_connect (Connect host port) = True"
| "is_connect e = False"

fun is_post :: "'d event \<Rightarrow> bool" where
  "is_post (HttpPost url d) = True"
| "is_post e = False"

fun is_write :: "'d event \<Rightarrow> bool" where
  "is_write (WriteFile p c) = True"
| "is_write e = False"

fun is_prompt :: "'d event \<Rightarrow> bool" where
  "is_prompt (Prompt p) = True"
| "is_prompt e = False"

section \<open>The readiness probe\<close>

definition is_port_open :: "'d world \<Rightarrow> 'd state \<Rightarrow> bool \<times> 'd state" where
  "is_port_open w st =
     (let result = connect_ex w (''127.0.0.1'', 9090) (length (filter is_connect (st_trace st)))
      in (result = 0, emit (Connect ''127.0.0.1'' 9090) st))"

text \<open>The loop \<open>for i in range(1, 5)\<close> of \<open>main\<close>; it returns \<open>is_api_running\<close>.\<close>

fun readiness_loop :: "'d world \<Rightarrow> nat list \<Rightarrow> 'd state \<Rightarrow> bool \<times> 'd state" where
  "readiness_loop w [] st = (False, st)"
| "readiness_loop w (i # rest) st =
     (case is_port_open w st of
        (True, st') \<Rightarrow> (True, st')
      | (False, st') \<Rightarrow> readiness_loop w rest (emit (Sleep 5) st'))"

definition readiness_gate :: "'d world \<Rightarrow> 'd state \<Rightarrow> (py_error + unit) \<times> 'd state" where
  "readiness_gate w st =
     (case readiness_loop w [1..<5] st of
        (is_api_running, st') \<Rightarrow>
          if \<not> is_api_running then (Inl (SystemExit (- 1)), st') else (Inr (), st'))"

section \<open>search\<close>

text \<open>
  The value \<open>search\<close> returns or \<open>args.id\<close> holds: text, \<open>None\<close>, or the empty
  tuple.
\<close>

datatype ident = IdStr string | IdNone | IdEmptyTuple

fun candidate_rows :: "nat \<Rightarrow> candidate list \<Rightarrow> (cell list \<times> bool) list" where
  "candidate_rows index [] = []"
| "candidate_rows index (c # cs) =
     ([CStr (cand_title c), CNum (PInt (int index))], (index + 1) mod 5 = 0)
       # candidate_rows (index + 1) cs"

text \<open>The prompt of \<open>input\<close> and the line printed by the \<open>except\<close> branch.\<close>

definition index_prompt :: "nat \<Rightarrow> string" where
  "index_prompt number_of_items =
     ''Please choose the index of the item you want to evaluate (from 0 to ''
       @ str_int (int number_of_items - 1) @ ''): ''"

definition index_hint :: "nat \<Rightarrow> string" where
  "index_hint number_of_items =
     ''Please introduce an integer between 0 and '' @ str_int (int number_of_items)"

text \<open>
  The loop \<open>for j in range(max_tries)\<close>, by the number of iterations left.  It returns
  \<open>int(ind)\<close> of the accepted input, or \<open>None\<close> when \<open>good\<close> is still 0.
  \<open>input\<close> raises \<open>EOFError\<close> at the end of standard input.
\<close>

fun input_loop :: "nat \<Rightarrow> nat \<Rightarrow> 'd state \<Rightarrow> (py_error + int option) \<times> 'd state" where
  "input_loop number_of_items 0 st = (Inr None, st)"
| "input_loop number_of_items (Suc j) st =
     (let st1 = emit (Prompt (index_prompt number_of_items)) st
      in case st_stdin st1 of
           [] \<Rightarrow> (Inl EOFError, st1)
         | ind # rest \<Rightarrow>
             (let st2 = st1\<lparr>st_stdin := rest\<rparr>
              in case py_int ind of
                   None \<Rightarrow>
                     input_loop number_of_items j
                       (emit (PrintText (index_hint number_of_items)) st2)
                 | Some v \<Rightarrow>
                     if v > - 1 \<and> v < int number_of_items then (Inr (Some v), st2)
                     else input_loop number_of_items j st2))"

definition search ::
  "'d world \<Rightarrow> args \<Rightarrow> string \<Rightarrow> string \<Rightarrow> 'd state \<Rightarrow> (py_error + ident) \<times> 'd state" where
  "search w args metadata_endpoint keytext st =
     (let max_tries = 5;
          params = [(''facets'', ''false''), (''q'', keytext)]
      in if arg_plugin args \<in> {Some ''epos'', Some ''epos_prod''} then
           (let url = metadata_endpoint @ ''/resources/search'';
                st1 = emit (HttpGet url params) st
            in case get_search w url params of
                 Inl e \<Rightarrow> (Inl e, st1)
               | Inr NoResults \<Rightarrow> (Inl (SystemExit (- 2)), st1)
               | Inr (Results None) \<Rightarrow> (Inl (KeyError ''distributions''), st1)
               | Inr (Results (Some distributions)) \<Rightarrow>
                   (let number_of_items = length distributions;
                        table = \<lparr>field_names = [''Title'', ''Index''],
                                 table_rows = candidate_rows 0 distributions\<rparr>;
                        st2 = emit (PrintTable table) st1
                    in case input_loop number_of_items max_tries st2 of
                         (Inl e, st3) \<Rightarrow> (Inl e, st3)
                       | (Inr None, st3) \<Rightarrow>
                           (Inr IdEmptyTuple, emit (PrintText ''Max tries, restart program'') st3)
                       | (Inr (Some v), st3) \<Rightarrow>
                           (Inr (IdStr (cand_id (distributions ! nat v))),
                            st3\<lparr>st_title := Some (cand_title (distributions ! nat v))\<rparr>)))
         else (Inl (SystemExit 0), st))"

section \<open>store\<close>

text \<open>
  The frame built from a list of rows has as many columns as the longest row, labelled
  \<open>0, 1, ...\<close>, shorter rows being filled up with missing values (\<open>None\<close>);
  assigning column labels needs one label per column.
\<close>

definition frame_width :: "cell list list \<Rightarrow> nat" where
  "frame_width rows = foldr (\<lambda>row m. max (length row) m) rows 0"

definition DataFrame :: "cell list list \<Rightarrow> data_frame" where
  "DataFrame score_data =
     \<lparr>df_columns = map (\<lambda>i. CNum (PInt (int i))) [0..<frame_width score_data],
      df_rows = map (\<lambda>row. map Some row @ replicate (frame_width score_data - length row) None)
                  score_data\<rparr>"

definition set_columns :: "string list \<Rightarrow> data_frame \<Rightarrow> py_error + data_frame" where
  "set_columns names dframe =
     (if length names \<noteq> length (df_columns dframe) then Inl ValueError
      else Inr (dframe\<lparr>df_columns := map CStr names\<rparr>))"

text \<open>
  Reading and replacing the column at position \<open>j\<close>.  In \<open>store\<close> the column
  labelled \<open>score\<close> is the third.
\<close>

definition get_column :: "nat \<Rightarrow> data_frame \<Rightarrow> cell option list" where
  "get_column j dframe = map (\<lambda>row. row ! j) (df_rows dframe)"

definition set_column :: "nat \<Rightarrow> cell option list \<Rightarrow> data_frame \<Rightarrow> data_frame" where
  "set_column j col dframe =
     dframe\<lparr>df_rows := map (\<lambda>(row, c). row[j := c]) (zip (df_rows dframe) col)\<rparr>"

text \<open>
  What \<open>to_csv\<close> writes with its default arguments: a header line and one record per
  row, each beginning with the row index, whose header field is empty.  How a value is
  written as text is not modelled.
\<close>

definition csv_table :: "data_frame \<Rightarrow> file_content" where
  "csv_table dframe =
     CsvFile (CStr [] # df_columns dframe)
       (map (\<lambda>(i, row). Some (CNum (PInt (int i))) # row) (enumerate 0 (df_rows dframe)))"

text \<open>\<open>os.path.join\<close> of two components on a POSIX system.\<close>

definition path_join :: "string \<Rightarrow> string \<Rightarrow> string" where
  "path_join a b =
     (if b \<noteq> [] \<and> hd b = CHR ''/'' then b
      else if a = [] \<or> last a = CHR ''/'' then a @ b
      else a @ ''/'' @ b)"

text \<open>
  Creating a file: the event \<open>WriteFile path content\<close>, or \<open>OSError\<close> when the file
  system does not let the file be created (a directory of the path that does not exist,
  as for an identifier with a slash in it, or no permission).
\<close>

definition write_file ::
  "'d world \<Rightarrow> string \<Rightarrow> file_content \<Rightarrow> 'd state \<Rightarrow> (py_error + unit) \<times> 'd state" where
  "write_file w file_path content st =
     (if w_can_create w file_path then (Inr (), emit (WriteFile file_path content) st)
      else (Inl OSError, st))"

definition store ::
  "'d world \<Rightarrow> string \<Rightarrow> cell list list \<Rightarrow> string \<Rightarrow> string \<Rightarrow> 'd state
     \<Rightarrow> (py_error + unit) \<times> 'd state" where
  "store w identifier score_data file_format path st =
     (case set_columns [''fair_indicator'', ''fair_principle'', ''score'', ''message'']
             (DataFrame score_data) of
        Inl e \<Rightarrow> (Inl e, st)
      | Inr dframe \<Rightarrow>
          (case w_to_numeric w (get_column 2 dframe) of
             Inl e \<Rightarrow> (Inl e, st)
           | Inr scores \<Rightarrow>
               (let dframe' = set_column 2 (map (map_option CNum) scores) dframe;
                    file_name = ''fair_eva_results-'' @ identifier @ ''.'' @ file_format;
                    file_path = path_join path file_name
                in if file_format \<notin> {''feather'', ''csv''} then (Inl (SystemExit (- 1)), st)
                   else if file_format \<in> {''feather''} then
                     write_file w file_path (FeatherFile dframe') st
                   else if file_format \<in> {''csv''} then
                     write_file w file_path (csv_table dframe') st
                   else (Inr (), st))))"

section \<open>main\<close>

text \<open>
  The first part of \<open>main\<close>: the metadata endpoint.  \<open>Inr (Inl s)\<close> is the early
  \<open>return s\<close>.
\<close>

definition resolve_endpoint ::
  "'d world \<Rightarrow> args \<Rightarrow> 'd state \<Rightarrow> (py_error + (string + string)) \<times> 'd state" where
  "resolve_endpoint w args st =
     (case arg_repository args of
        None \<Rightarrow>
          (case arg_plugin args of
             None \<Rightarrow> (Inl TypeError, st)
           | Some plugin \<Rightarrow>
               (let url = ''http://localhost:9090/v1.0/endpoints?plugin='' @ plugin;
                    st1 = emit (HttpGet url []) st
                in case get_endpoints w url of
                     Inl e \<Rightarrow> (Inl e, st1)
                   | Inr response \<Rightarrow>
                       if ep_status response = 404 then
                         (Inr (Inl ''Input plugin not found''),
                          emit (PrintText (''Input plugin not found. Look for plugins in the plugins folder. The accepted plugins for this script are: ''
                                  @ ep_keys response)) st1)
                       else (Inr (Inr (ep_endpoint response)), st1)))
      | Some repository \<Rightarrow> (Inr (Inr repository), st))"

text \<open>
  \<open>if args.search: identifier = search(args.search) else: identifier = args.id\<close>;
  the empty string is falsy.
\<close>

definition choose_identifier ::
  "'d world \<Rightarrow> args \<Rightarrow> string \<Rightarrow> 'd state \<Rightarrow> (py_error + ident) \<times> 'd state" where
  "choose_identifier w args metadata_endpoint st =
     (case arg_search args of
        Some keytext \<Rightarrow>
          if keytext \<noteq> [] then search w args metadata_endpoint keytext st
          else (Inr (case arg_id args of None \<Rightarrow> IdNone | Some i \<Rightarrow> IdStr i), st)
      | None \<Rightarrow> (Inr (case arg_id args of None \<Rightarrow> IdNone | Some i \<Rightarrow> IdStr i), st))"

fun print_lines :: "string list \<Rightarrow> 'd state \<Rightarrow> 'd state" where
  "print_lines [] st = st"
| "print_lines (line # rest) st = print_lines rest (emit (PrintText line) st)"

text \<open>
  The rest of \<open>main\<close> once the evaluation response \<open>r\<close> is there and \<open>r.ok\<close> holds.
\<close>

definition report ::
  "'d world \<Rightarrow> args \<Rightarrow> string \<Rightarrow> 'd response \<Rightarrow> 'd state
     \<Rightarrow> (py_error + string option) \<times> 'd state" where
  "report w args identifier results_all st =
     (let results = (case map_of (resp_results results_all) identifier of
                       None \<Rightarrow> []
                     | Some res \<Rightarrow> res)
      in case collect_score_data (w_str_dict w) (w_float_repr w) results of
           Inl e \<Rightarrow> (Inl e, st)
         | Inr score_results \<Rightarrow>
             (case
                (if arg_json args then (Inr (), emit (PrintResults results) st)
                 else
                   (case (if arg_totals args then map_sum id fst (calcpoints (w_arith w) (w_gettext w) results)
                          else Inr []) of
                      Inl e \<Rightarrow> (Inl e, st)
                    | Inr totals \<Rightarrow>
                        (case print_table score_results totals of
                           Inl e \<Rightarrow> (Inl e, st)
                         | Inr tables \<Rightarrow> (Inr (), foldl (\<lambda>s t. emit (PrintTable t) s) st tables))))
              of
                (Inl e, st1) \<Rightarrow> (Inl e, st1)
              | (Inr u, st1) \<Rightarrow>
                  (case
                     (if arg_logs args then
                        (let st2 = emit (PrintText (newline @ ''----- Evaluator logs -----'')) st1
                         in case resp_logs results_all of
                              None \<Rightarrow> (Inl (KeyError ''evaluator_logs''), st2)
                            | Some lines \<Rightarrow> (Inr (), print_lines lines st2))
                      else (Inr (), st1))
                   of
                     (Inl e, st3) \<Rightarrow> (Inl e, st3)
                   | (Inr u, st3) \<Rightarrow>
                       (case
                          (if arg_store_feather args
                           then store w identifier score_results ''feather'' ''/tmp'' st3
                           else (Inr (), st3))
                        of
                          (Inl e, st4) \<Rightarrow> (Inl e, st4)
                        | (Inr u, st4) \<Rightarrow>
                            (case
                               (if arg_store_csv args
                                then store w identifier score_results ''csv'' ''/tmp'' st4
                                else (Inr (), st4))
                             of
                               (Inl e, st5) \<Rightarrow> (Inl e, st5)
                             | (Inr u, st5) \<Rightarrow> (Inr None, st5))))))"

text \<open>
  \<open>main\<close>, in two definitions: \<open>startup\<close> is its beginning, up to and including
  the readiness loop and the exit that follows it.  The test \<open>search == True\<close> compares the function \<open>search\<close> with
  \<open>True\<close> and is false in every run, so the message is always built by
  \<open>"Evaluating item with id : " + identifier\<close>, which raises \<open>TypeError\<close> unless
  \<open>identifier\<close> is text.
\<close>

definition startup ::
  "'d world \<Rightarrow> args \<Rightarrow> 'd state \<Rightarrow> (py_error + (string + string)) \<times> 'd state" where
  "startup w args st =
     (case resolve_endpoint w args st of
        (Inl e, st1) \<Rightarrow> (Inl e, st1)
      | (Inr (Inl returned), st1) \<Rightarrow> (Inr (Inl returned), st1)
      | (Inr (Inr metadata_endpoint), st1) \<Rightarrow>
          (case readiness_gate w st1 of
             (Inl e, st2) \<Rightarrow> (Inl e, st2)
           | (Inr u, st2) \<Rightarrow> (Inr (Inr metadata_endpoint), st2)))"

definition main :: "'d world \<Rightarrow> args \<Rightarrow> 'd state \<Rightarrow> (py_error + string option) \<times> 'd state" where
  "main w args st =
     (let url = arg_api_endpoint args
      in case startup w args st of
           (Inl e, st2) \<Rightarrow> (Inl e, st2)
         | (Inr (Inl returned), st2) \<Rightarrow> (Inr (Some returned), st2)
         | (Inr (Inr metadata_endpoint), st2) \<Rightarrow>
             (case choose_identifier w args metadata_endpoint st2 of
                (Inl e, st3) \<Rightarrow> (Inl e, st3)
              | (Inr IdNone, st3) \<Rightarrow> (Inl TypeError, st3)
              | (Inr IdEmptyTuple, st3) \<Rightarrow> (Inl TypeError, st3)
              | (Inr (IdStr identifier), st3) \<Rightarrow>
                  (let data = \<lparr>pd_id = identifier, pd_repo = arg_plugin args,
                               pd_oai_base = metadata_endpoint, pd_lang = ''EN''\<rparr>;
                       st4 = emit (HttpPost url data) st3
                   in case post_evaluation w url data of
                        Inl e \<Rightarrow> (Inl e, st4)
                      | Inr r \<Rightarrow>
                          if \<not> resp_status r < 400 then (Inl (SystemExit (int (resp_status r))), st4)
                          else report w args identifier r st4)))"

section \<open>Notions the properties are stated with\<close>

text \<open>
  The sums of the score summary: \<open>s + weight\<^sub>1 + weight\<^sub>2 + ...\<close> and
  \<open>s + points\<^sub>1 * weight\<^sub>1 + points\<^sub>2 * weight\<^sub>2 + ...\<close> over the indicators in order,
  in the interpreter's arithmetic, with the errors it raises.
\<close>

fun add_weights :: "arith \<Rightarrow> pynum \<Rightarrow> 'd principle_result \<Rightarrow> py_error + pynum" where
  "add_weights ar s [] = Inr s"
| "add_weights ar s ((kk, ind) # rest) =
     (case py_add ar s (ir_weight ind) of
        Inl e \<Rightarrow> Inl e
      | Inr s' \<Rightarrow> add_weights ar s' rest)"

fun add_points :: "arith \<Rightarrow> pynum \<Rightarrow> 'd principle_result \<Rightarrow> py_error + pynum" where
  "add_points ar s [] = Inr s"
| "add_points ar s ((kk, ind) # rest) =
     (case py_mul ar (ir_points ind) (ir_weight ind) of
        Inl e \<Rightarrow> Inl e
      | Inr product \<Rightarrow>
          (case py_add ar s product of
             Inl e \<Rightarrow> Inl e
           | Inr s' \<Rightarrow> add_points ar s' rest))"

definition weight_sum :: "arith \<Rightarrow> 'd principle_result \<Rightarrow> py_error + pynum" where
  "weight_sum ar inds = add_weights ar (PInt 0) inds"

definition weighted_points :: "arith \<Rightarrow> 'd principle_result \<Rightarrow> py_error + pynum" where
  "weighted_points ar inds = add_points ar (PInt 0) inds"

text \<open>
  The weighted average \<open>sum(points * weight) / sum(weight)\<close> and its rounding
  \<open>round(sum(points * weight) / sum(weight), n)\<close>, as the interpreter evaluates them.
\<close>

definition weighted_average :: "arith \<Rightarrow> 'd principle_result \<Rightarrow> py_error + pynum" where
  "weighted_average ar inds =
     (case weighted_points ar inds of
        Inl e \<Rightarrow> Inl e
      | Inr p \<Rightarrow>
          (case weight_sum ar inds of
             Inl e \<Rightarrow> Inl e
           | Inr w \<Rightarrow> py_truediv ar p w))"

definition rounded_average :: "arith \<Rightarrow> nat \<Rightarrow> 'd principle_result \<Rightarrow> py_error + pynum" where
  "rounded_average ar n inds = map_sum id (\<lambda>q. py_round ar q n) (weighted_average ar inds)"

text \<open>
  An input is a valid index for \<open>n\<close> candidates when it parses as an integer in the
  inclusive range from 0 to \<open>n - 1\<close>.
\<close>

definition valid_index :: "nat \<Rightarrow> string \<Rightarrow> bool" where
  "valid_index n s = (case py_int s of None \<Rightarrow> False | Some v \<Rightarrow> 0 \<le> v \<and> v < int n)"

text \<open>
  The summary row of a principle: its capitalized name and its score with two decimals.
\<close>

definition principle_row :: "string \<times> pynum \<Rightarrow> cell list" where
  "principle_row p = [CStr (capitalize (fst p)), CStr (fmt_2f (val (snd p)))]"

section \<open>Example inputs\<close>

text \<open>
  An arithmetic for the examples: exact, and rounding to \<open>n\<close> decimals with ties to
  even.  It is the interpreter's arithmetic wherever the exact result is a double, which
  holds for every operation that the theorems below evaluate with it.
\<close>

definition ex_arith :: arith where
  "ex_arith =
     \<lparr>ar_float = of_int,
      ar_idiv = (\<lambda>a b. of_int a / of_int b),
      ar_fadd = (\<lambda>x y. x + y),
      ar_fmul = (\<lambda>x y. x * y),
      ar_fdiv = (\<lambda>x y. x / y),
      ar_round = (\<lambda>x n. round_to n x)\<rparr>"

text \<open>
  The text of a float that is a whole number of tenths (as \<open>0.5\<close>), and the reading
  of a non-negative number written in decimal digits, with a point (a float, as
  \<open>0.67\<close>) or without (an int).
\<close>

definition tenths_repr :: "rat \<Rightarrow> string" where
  "tenths_repr x =
     (let t = round_half_even (\<bar>x\<bar> * 10)
      in (if x < 0 then [CHR ''-''] else []) @ str_digits (t div 10) @ [CHR ''.'', digit_char (t mod 10)])"

definition read_decimal :: "string \<Rightarrow> pynum option" where
  "read_decimal s =
     (case parse_unsigned (filter (\<lambda>c. c \<noteq> CHR ''.'') s) of
        None \<Rightarrow> None
      | Some n \<Rightarrow>
          if CHR ''.'' \<in> set s
          then Some (PFloat (of_int n / 10 ^ length (tl (dropWhile (\<lambda>c. c \<noteq> CHR ''.'') s))))
          else Some (PInt n))"

text \<open>
  \<open>pd.to_numeric\<close> on a column of ints, texts of such numbers and missing values: a
  column of ints stays a column of ints, any other column becomes a column of floats.
\<close>

fun read_number :: "cell option \<Rightarrow> py_error + pynum option" where
  "read_number None = Inr None"
| "read_number (Some (CNum n)) = Inr (Some n)"
| "read_number (Some (CStr s)) =
     (case read_decimal s of None \<Rightarrow> Inl ValueError | Some n \<Rightarrow> Inr (Some n))"

fun read_numbers :: "cell option list \<Rightarrow> py_error + pynum option list" where
  "read_numbers [] = Inr []"
| "read_numbers (c # cs) =
     (case read_number c of
        Inl e \<Rightarrow> Inl e
      | Inr n \<Rightarrow> (case read_numbers cs of Inl e \<Rightarrow> Inl e | Inr ns \<Rightarrow> Inr (n # ns)))"

fun is_int_value :: "pynum option \<Rightarrow> bool" where
  "is_int_value (Some (PInt i)) = True"
| "is_int_value n = False"

definition ex_to_numeric :: "cell option list \<Rightarrow> py_error + pynum option list" where
  "ex_to_numeric col =
     (case read_numbers col of
        Inl e \<Rightarrow> Inl e
      | Inr ns \<Rightarrow>
          if list_all is_int_value ns then Inr ns
          else Inr (map (map_option (\<lambda>n. PFloat (val n))) ns))"

definition ex_indicator :: "string \<Rightarrow> pynum \<Rightarrow> pynum \<Rightarrow> unit indicator_result" where
  "ex_indicator n p wgt =
     \<lparr>ir_name = n, ir_points = p, ir_weight = wgt, ir_msg = None,
      ir_indicator = None, ir_name_smart = None\<rparr>"

definition ex_result :: "unit evaluation_result" where
  "ex_result =
     [(''findable'', [(''rda_f1_01m'', ex_indicator ''rda_f1_01m'' (PInt 100) (PInt 3)),
                      (''rda_f1_01d'', ex_indicator ''rda_f1_01d'' (PFloat (1 / 2)) (PInt 3))]),
      (''accessible'', [(''rda_a1_01m'', ex_indicator ''rda_a1_01m'' (PInt 100) (PInt 3))]),
      (''interoperable'', [(''rda_i1_01m'', ex_indicator ''rda_i1_01m'' (PInt 100) (PInt 3))]),
      (''reusable'', [(''rda_r1_01m'', ex_indicator ''rda_r1_01m'' (PFloat (1 / 2)) (PInt 3))])]"

text \<open>
  A result whose averages are doubles at every step, and one in which every principle
  has one indicator of weight 1 and the findable indicator has \<open>10 ** 400\<close> points.
\<close>

definition ex_scored :: "unit evaluation_result" where
  "ex_scored =
     [(''findable'', [(''rda_f1_01m'', ex_indicator ''rda_f1_01m'' (PInt 100) (PInt 1)),
                      (''rda_f1_01d'', ex_indicator ''rda_f1_01d'' (PFloat (1 / 2)) (PInt 1))]),
      (''accessible'', [(''rda_a1_01m'', ex_indicator ''rda_a1_01m'' (PInt 100) (PInt 2))]),
      (''interoperable'', [(''rda_i1_01m'', ex_indicator ''rda_i1_01m'' (PInt 50) (PInt 2))]),
      (''reusable'', [(''rda_r1_01m'', ex_indicator ''rda_r1_01m'' (PFloat (3 / 4)) (PInt 2))])]"

definition ex_huge :: "unit evaluation_result" where
  "ex_huge =
     [(''findable'', [(''rda_f1_01m'', ex_indicator ''rda_f1_01m'' (PInt (10 ^ 400)) (PInt 1))]),
      (''accessible'', [(''rda_a1_01m'', ex_indicator ''rda_a1_01m'' (PInt 100) (PInt 1))]),
      (''interoperable'', [(''rda_i1_01m'', ex_indicator ''rda_i1_01m'' (PInt 100) (PInt 1))]),
      (''reusable'', [(''rda_r1_01m'', ex_indicator ''rda_r1_01m'' (PInt 100) (PInt 1))])]"

definition ex_empty :: "unit evaluation_result" where
  "ex_empty =
     [(''findable'', []), (''accessible'', []), (''interoperable'', []), (''reusable'', [])]"

definition ex_partly_empty :: "unit evaluation_result" where
  "ex_partly_empty =
     [(''findable'', [(''rda_f1_01m'', ex_indicator ''rda_f1_01m'' (PInt 100) (PInt 3))]),
      (''accessible'', []), (''interoperable'', []), (''reusable'', [])]"

definition ex_candidates :: "candidate list" where
  "ex_candidates =
     [\<lparr>cand_title = ''A'', cand_id = ''id-a''\<rparr>,
      \<lparr>cand_title = ''B'', cand_id = ''id-b''\<rparr>,
      \<lparr>cand_title = ''C'', cand_id = ''id-c''\<rparr>]"

text \<open>
  An environment in which the service answers the first connection, the search finds
  three candidates, and the evaluation response is \<open>resp\<close>.
\<close>

definition ex_world :: "unit response \<Rightarrow> unit world" where
  "ex_world resp =
     \<lparr>connect_ex = (\<lambda>addr n. 0),
      get_endpoints = (\<lambda>url. Inr \<lparr>ep_status = 200, ep_endpoint = ''https://repo.example/api/v1'',
                                  ep_keys = ''dict_keys([])''\<rparr>),
      get_search = (\<lambda>url params. Inr (Results (Some ex_candidates))),
      post_evaluation = (\<lambda>url data. Inr resp),
      w_gettext = (\<lambda>s. s),
      w_str_dict = (\<lambda>d. ''{}''),
      w_float_repr = tenths_repr,
      w_to_numeric = ex_to_numeric,
      w_arith = ex_arith,
      w_can_create = (\<lambda>path. True)\<rparr>"

text \<open>An environment like \<open>ex_world\<close> whose service never accepts a connection.\<close>

definition ex_world_down :: "unit response \<Rightarrow> unit world" where
  "ex_world_down resp = (ex_world resp)\<lparr>connect_ex := (\<lambda>addr n. 111)\<rparr>"

text \<open>An environment like \<open>ex_world\<close> whose file system lets no file be created.\<close>

definition ex_world_read_only :: "unit response \<Rightarrow> unit world" where
  "ex_world_read_only resp = (ex_world resp)\<lparr>w_can_create := (\<lambda>path. False)\<rparr>"

definition ex_args :: args where
  "ex_args =
     \<lparr>arg_id = Some ''abc123'', arg_plugin = Some ''oai-pmh'',
      arg_repository = Some ''http://repo.example/oai'',
      arg_api_endpoint = ''http://localhost:9090/v1.0/rda/rda_all'',
      arg_json = False, arg_totals = False, arg_logs = False, arg_search = None,
      arg_store_feather = False, arg_store_csv = False\<rparr>"

definition ex_search_args :: args where
  "ex_search_args = ex_args\<lparr>arg_id := None, arg_plugin := Some ''epos'', arg_search := Some ''quake''\<rparr>"

text \<open>A response that has no entry for the requested identifier, and one that has.\<close>

definition ex_response_without_id :: "unit response" where
  "ex_response_without_id = \<lparr>resp_status = 200, resp_results = [], resp_logs = Some []\<rparr>"

definition ex_response :: "unit response" where
  "ex_response = \<lparr>resp_status = 200, resp_results = [(''abc123'', ex_result)], resp_logs = Some []\<rparr>"

definition ex_rows :: "cell list list" where
  "ex_rows =
     [[CStr ''RDA-F1-01M'', CStr ''Metadata is identified by a persistent identifier'',
       CNum (PInt 100), CStr ''Not available''],
      [CStr ''RDA-F1-01D'', CStr ''Data is identified by a persistent identifier'',
       CStr ''0.50'', CStr ''Not available'']]"

definition ex_totals :: "(string, pynum) dict" where
  "ex_totals =
     [(''findable'', PFloat (201 / 4)), (''accessible'', PFloat 100),
      (''interoperable'', PFloat 100), (''reusable'', PFloat (1 / 2)),
      (''total'', PFloat (301 / 5))]"

section \<open>Arithmetic of the score loops\<close>

text \<open>
  The only error of \<open>+\<close> and \<open>*\<close> is \<open>OverflowError\<close>; division raises that or
  \<open>ZeroDivisionError\<close>.
\<close>

lemma py_add_error: "py_add ar a b = Inl e \<Longrightarrow> e = OverflowError"
  by (cases a; cases b) (auto split: sum.splits if_splits)

lemma py_mul_error: "py_mul ar a b = Inl e \<Longrightarrow> e = OverflowError"
  by (cases a; cases b) (auto split: sum.splits if_splits)

lemma py_truediv_error:
  "py_truediv ar a b = Inl e \<Longrightarrow> e = ZeroDivisionError \<or> e = OverflowError"
  by (cases a; cases b) (auto split: sum.splits if_splits)

lemma add_weights_append:
  "add_weights ar s (xs @ ys) =
     (case add_weights ar s xs of Inl e \<Rightarrow> Inl e | Inr s' \<Rightarrow> add_weights ar s' ys)"
  by (induction xs arbitrary: s) (auto split: sum.splits)

lemma add_points_append:
  "add_points ar s (xs @ ys) =
     (case add_points ar s xs of Inl e \<Rightarrow> Inl e | Inr s' \<Rightarrow> add_points ar s' ys)"
  by (induction xs arbitrary: s) (auto split: sum.splits)

text \<open>
  The accumulators of the inner loop hold the starting values plus the sums over the
  principle's indicators, added in order; the inner loop raises nothing but
  \<open>OverflowError\<close>.
\<close>

lemma indicator_loop_sums:
  "add_weights ar wt inds = Inr wt' \<Longrightarrow> add_weights ar gw inds = Inr gw' \<Longrightarrow>
   add_points ar rp inds = Inr rp' \<Longrightarrow> add_points ar gp inds = Inr gp' \<Longrightarrow>
   \<exists>inds'. indicator_loop ar gettext inds (wt, gw, rp, gp) = Inr ((wt', gw', rp', gp'), inds')"
proof (induction inds arbitrary: wt gw rp gp)
  case Nil
  then show ?case by simp
next
  case (Cons a inds)
  obtain kk ind where a: "a = (kk, ind)" by (cases a)
  from Cons.prems(1) obtain wt1 where wt1: "py_add ar wt (ir_weight ind) = Inr wt1"
    "add_weights ar wt1 inds = Inr wt'"
    by (auto simp: a split: sum.splits)
  from Cons.prems(2) obtain gw1 where gw1: "py_add ar gw (ir_weight ind) = Inr gw1"
    "add_weights ar gw1 inds = Inr gw'"
    by (auto simp: a split: sum.splits)
  from Cons.prems(3) obtain pr rp1 where rp1: "py_mul ar (ir_points ind) (ir_weight ind) = Inr pr"
    "py_add ar rp pr = Inr rp1" "add_points ar rp1 inds = Inr rp'"
    by (auto simp: a split: sum.splits)
  from Cons.prems(4) rp1(1) obtain gp1 where gp1: "py_add ar gp pr = Inr gp1"
    "add_points ar gp1 inds = Inr gp'"
    by (auto simp: a split: sum.splits)
  from Cons.IH [OF wt1(2) gw1(2) rp1(3) gp1(2)]
  obtain inds' where "indicator_loop ar gettext inds (wt1, gw1, rp1, gp1) = Inr ((wt', gw', rp', gp'), inds')"
    by blast
  then show ?case
    by (simp add: a Let_def wt1(1) gw1(1) rp1(1,2) gp1(1))
qed

lemma indicator_loop_error:
  "indicator_loop ar gettext inds acc = Inl e \<Longrightarrow> e = OverflowError"
proof (induction inds arbitrary: acc)
  case Nil
  then show ?case by simp
next
  case (Cons a inds)
  obtain kk ind where a: "a = (kk, ind)" by (cases a)
  obtain wt gw rp gp where acc: "acc = (wt, gw, rp, gp)" by (cases acc)
  show ?case
    using Cons.prems Cons.IH
    by (auto simp: a acc Let_def split: sum.splits prod.splits
        dest: py_add_error py_mul_error)
qed

lemma map_of_update_other: "k' \<noteq> k \<Longrightarrow> map_of (AList.update k v al) k' = map_of al k'"
  by (simp add: update_conv')

lemma rounded_average_parts:
  assumes "rounded_average ar n inds = Inr v"
  obtains p w q where "add_points ar (PInt 0) inds = Inr p" and "add_weights ar (PInt 0) inds = Inr w"
    and "py_truediv ar p w = Inr q" and "v = py_round ar q n"
proof -
  from assms obtain p where p: "add_points ar (PInt 0) inds = Inr p"
    by (cases "add_points ar (PInt 0) inds")
      (auto simp: rounded_average_def weighted_average_def weighted_points_def weight_sum_def)
  from assms p obtain w where w: "add_weights ar (PInt 0) inds = Inr w"
    by (cases "add_weights ar (PInt 0) inds")
      (auto simp: rounded_average_def weighted_average_def weighted_points_def weight_sum_def)
  from assms p w obtain q where q: "py_truediv ar p w = Inr q"
    by (cases "py_truediv ar p w")
      (auto simp: rounded_average_def weighted_average_def weighted_points_def weight_sum_def)
  from assms p w q have "v = py_round ar q n"
    by (auto simp: rounded_average_def weighted_average_def weighted_points_def weight_sum_def)
  with p w q show thesis by (rule that)
qed

text \<open>
  One round of the outer loop: when the sums and the rounded average of the principle
  have values, the loop goes on with that average stored under the principle's key.  When
  one of the remaining principles has no indicator the loop raises, at the latest at the
  division for that principle.
\<close>

lemma principle_loop_step:
  assumes look: "map_of result key = Some inds"
    and wt: "add_weights ar wt inds = Inr wt'"
    and rp: "add_points ar rp inds = Inr rp'"
    and avg: "rounded_average ar 3 inds = Inr v"
  shows "\<exists>inds'. principle_loop ar gettext (key # keys) result points (rp, wt) =
           principle_loop ar gettext keys (AList.update key inds' result)
             (AList.update key v points) (rp', wt')"
proof -
  from avg obtain p w q where parts: "add_points ar (PInt 0) inds = Inr p"
    "add_weights ar (PInt 0) inds = Inr w" "py_truediv ar p w = Inr q" "v = py_round ar q 3"
    by (rule rounded_average_parts)
  from indicator_loop_sums [OF wt parts(2) rp parts(1), of gettext]
  obtain inds' where "indicator_loop ar gettext inds (wt, PInt 0, rp, PInt 0) =
      Inr ((wt', w, rp', p), inds')"
    by blast
  then have "principle_loop ar gettext (key # keys) result points (rp, wt) =
           principle_loop ar gettext keys (AList.update key inds' result)
             (AList.update key v points) (rp', wt')"
    using look parts(3,4) by (simp add: getitem_def)
  then show ?thesis by blast
qed

lemma principle_loop_raises:
  assumes "distinct keys"
    and "\<forall>k \<in> set keys. \<exists>inds. map_of result k = Some inds"
    and "\<exists>k \<in> set keys. map_of result k = Some []"
  shows "principle_loop ar gettext keys result points (rp, wt) = Inl ZeroDivisionError \<or>
         principle_loop ar gettext keys result points (rp, wt) = Inl OverflowError"
  using assms
proof (induction keys arbitrary: result points rp wt)
  case Nil
  then show ?case by simp
next
  case (Cons key keys)
  from Cons.prems(2) obtain inds where inds: "map_of result key = Some inds" by auto
  show ?case
  proof (cases "indicator_loop ar gettext inds (wt, PInt 0, rp, PInt 0)")
    case (Inl e)
    then have "e = OverflowError" by (rule indicator_loop_error)
    with Inl inds show ?thesis by (simp add: getitem_def)
  next
    case (Inr r)
    obtain wt' gw rp' gp inds' where r: "r = ((wt', gw, rp', gp), inds')"
      by (metis prod_cases4 surj_pair)
    show ?thesis
    proof (cases "py_truediv ar gp gw")
      case (Inl e)
      then have "e = ZeroDivisionError \<or> e = OverflowError" by (rule py_truediv_error)
      with Inl Inr r inds show ?thesis by (auto simp: getitem_def)
    next
      case div: (Inr q)
      have step: "principle_loop ar gettext (key # keys) result points (rp, wt) =
             principle_loop ar gettext keys (AList.update key inds' result)
               (AList.update key (py_round ar q 3) points) (rp', wt')"
        using inds Inr r div by (simp add: getitem_def)
      have nonempty: "inds \<noteq> []"
      proof
        assume "inds = []"
        with Inr r have "gp = PInt 0 \<and> gw = PInt 0" by auto
        with div show False by simp
      qed
      have other: "map_of (AList.update key inds' result) k = map_of result k" if "k \<in> set keys" for k
        using that Cons.prems(1) by (intro map_of_update_other) auto
      have "principle_loop ar gettext keys (AList.update key inds' result)
               (AList.update key (py_round ar q 3) points) (rp', wt') = Inl ZeroDivisionError \<or>
            principle_loop ar gettext keys (AList.update key inds' result)
               (AList.update key (py_round ar q 3) points) (rp', wt') = Inl OverflowError"
      proof (rule Cons.IH)
        show "distinct keys" using Cons.prems(1) by simp
        show "\<forall>k\<in>set keys. \<exists>inds. map_of (AList.update key inds' result) k = Some inds"
          using Cons.prems(2) other by simp
        show "\<exists>k\<in>set keys. map_of (AList.update key inds' result) k = Some []"
          using Cons.prems(3) other inds nonempty by auto
      qed
      with step show ?thesis by simp
    qed
  qed
qed

text \<open>
  Facts of the example arithmetic.
\<close>

lemma huge_overflow: "float_limit \<le> \<bar>of_int (10 ^ 400) / of_int 1\<bar>"
  by (simp add: float_limit_def)

lemma ex_rounds: "round_to 3 (201 / 4) = 201 / 4" "round_to 3 100 = 100" "round_to 3 50 = 50"
  "round_to 3 (3 / 4) = 3 / 4" "round_to 2 (201 / 4) = 201 / 4"
  by code_simp+

section \<open>The input loop\<close>

lemma prompts_emit_prompt:
  "length (filter is_prompt (st_trace (emit (Prompt p) st))) = Suc (length (filter is_prompt (st_trace st)))"
  by (simp add: emit_def)

text \<open>
  An input that is not a valid index uses up one iteration: one prompt is shown, the
  input is consumed, and the loop goes on.
\<close>

lemma input_loop_step_invalid:
  assumes "st_stdin st = b # rest" and "\<not> valid_index n b"
  shows "\<exists>st'. input_loop n (Suc j) st = input_loop n j st' \<and> st_stdin st' = rest \<and>
           st_title st' = st_title st \<and>
           length (filter is_prompt (st_trace st')) = Suc (length (filter is_prompt (st_trace st))) \<and>
           filter is_post (st_trace st') = filter is_post (st_trace st)"
proof (cases "py_int b")
  case None
  let ?st' = "emit (PrintText (index_hint n)) ((emit (Prompt (index_prompt n)) st)\<lparr>st_stdin := rest\<rparr>)"
  have "input_loop n (Suc j) st = input_loop n j ?st'"
    using None assms(1) by (simp add: Let_def emit_def)
  moreover have "st_stdin ?st' = rest" "st_title ?st' = st_title st"
    "length (filter is_prompt (st_trace ?st')) = Suc (length (filter is_prompt (st_trace st)))"
    "filter is_post (st_trace ?st') = filter is_post (st_trace st)"
    by (simp_all add: emit_def)
  ultimately show ?thesis by blast
next
  case (Some v)
  with assms have range: "\<not> (v > - 1 \<and> v < int n)" by (auto simp: valid_index_def)
  let ?st' = "(emit (Prompt (index_prompt n)) st)\<lparr>st_stdin := rest\<rparr>"
  have "input_loop n (Suc j) st = input_loop n j ?st'"
    using Some range assms(1) by (auto simp: Let_def emit_def)
  moreover have "st_stdin ?st' = rest" "st_title ?st' = st_title st"
    "length (filter is_prompt (st_trace ?st')) = Suc (length (filter is_prompt (st_trace st)))"
    "filter is_post (st_trace ?st') = filter is_post (st_trace st)"
    by (simp_all add: emit_def)
  ultimately show ?thesis by blast
qed

lemma input_loop_accepts:
  assumes "st_stdin st = bad @ good # rest" and "length bad < t"
    and "\<forall>b \<in> set bad. \<not> valid_index n b"
    and "py_int good = Some v" and "0 \<le> v" and "v < int n"
  shows "\<exists>st'. input_loop n t st = (Inr (Some v), st') \<and> st_stdin st' = rest \<and>
           st_title st' = st_title st \<and>
           length (filter is_prompt (st_trace st')) =
             length (filter is_prompt (st_trace st)) + length bad + 1 \<and>
           filter is_post (st_trace st') = filter is_post (st_trace st)"
  using assms(1-3)
proof (induction bad arbitrary: t st)
  case Nil
  then obtain j where t: "t = Suc j" by (cases t) auto
  show ?case
    using Nil assms(4-6) by (simp add: t Let_def emit_def)
next
  case (Cons b bad)
  then obtain j where t: "t = Suc j" by (cases t) auto
  from Cons.prems have hd: "st_stdin st = b # (bad @ good # rest)" and inv: "\<not> valid_index n b"
    by simp_all
  from input_loop_step_invalid [OF hd inv, of j]
  obtain st1 where st1: "input_loop n (Suc j) st = input_loop n j st1"
    "st_stdin st1 = bad @ good # rest" "st_title st1 = st_title st"
    "length (filter is_prompt (st_trace st1)) = Suc (length (filter is_prompt (st_trace st)))"
    "filter is_post (st_trace st1) = filter is_post (st_trace st)"
    by blast
  have "\<exists>st'. input_loop n j st1 = (Inr (Some v), st') \<and> st_stdin st' = rest \<and>
           st_title st' = st_title st1 \<and>
           length (filter is_prompt (st_trace st')) =
             length (filter is_prompt (st_trace st1)) + length bad + 1 \<and>
           filter is_post (st_trace st') = filter is_post (st_trace st1)"
    using Cons.prems t st1(2) by (intro Cons.IH) auto
  then show ?case
    using st1 t by auto
qed

lemma input_loop_exhausted:
  assumes "st_stdin st = bad @ rest" and "length bad = t"
    and "\<forall>b \<in> set bad. \<not> valid_index n b"
  shows "\<exists>st'. input_loop n t st = (Inr None, st') \<and> st_stdin st' = rest \<and>
           st_title st' = st_title st \<and>
           length (filter is_prompt (st_trace st')) =
             length (filter is_prompt (st_trace st)) + t \<and>
           filter is_post (st_trace st') = filter is_post (st_trace st)"
  using assms
proof (induction bad arbitrary: t st)
  case Nil
  then show ?case by simp
next
  case (Cons b bad)
  then obtain j where t: "t = Suc j" by (cases t) auto
  from Cons.prems have hd: "st_stdin st = b # (bad @ rest)" and inv: "\<not> valid_index n b"
    by simp_all
  from input_loop_step_invalid [OF hd inv, of j]
  obtain st1 where st1: "input_loop n (Suc j) st = input_loop n j st1"
    "st_stdin st1 = bad @ rest" "st_title st1 = st_title st"
    "length (filter is_prompt (st_trace st1)) = Suc (length (filter is_prompt (st_trace st)))"
    "filter is_post (st_trace st1) = filter is_post (st_trace st)"
    by blast
  have "\<exists>st'. input_loop n j st1 = (Inr None, st') \<and> st_stdin st' = rest \<and>
           st_title st' = st_title st1 \<and>
           length (filter is_prompt (st_trace st')) =
             length (filter is_prompt (st_trace st1)) + j \<and>
           filter is_post (st_trace st') = filter is_post (st_trace st1)"
    using Cons.prems t st1(2) by (intro Cons.IH) auto
  then show ?case
    using st1 t by auto
qed

section \<open>Claim C1: the score summary\<close>

text \<open>
  Claim C1 promises a summary for every evaluation result in which each principle has at
  least one indicator.  In \<open>ex_huge\<close> every principle has one indicator, all weights are
  1, and the findable indicator has \<open>10 ** 400\<close> points: the sums are ints, the
  quotient \<open>g_points / g_weight\<close> for \<open>findable\<close> is too large for a float, and
  \<open>calcpoints\<close> raises \<open>OverflowError\<close> instead of returning a summary.
\<close>

theorem calcpoints_overflow_counterexample:
  "map_of ex_huge ''findable'' =
     Some [(''rda_f1_01m'', ex_indicator ''rda_f1_01m'' (PInt (10 ^ 400)) (PInt 1))] \<and>
   map_of ex_huge ''accessible'' =
     Some [(''rda_a1_01m'', ex_indicator ''rda_a1_01m'' (PInt 100) (PInt 1))] \<and>
   map_of ex_huge ''interoperable'' =
     Some [(''rda_i1_01m'', ex_indicator ''rda_i1_01m'' (PInt 100) (PInt 1))] \<and>
   map_of ex_huge ''reusable'' =
     Some [(''rda_r1_01m'', ex_indicator ''rda_r1_01m'' (PInt 100) (PInt 1))] \<and>
   calcpoints ex_arith id ex_huge = Inl OverflowError"
  using huge_overflow
  by (simp add: ex_huge_def calcpoints_def FAIR_PRINCIPLES_def getitem_def ex_indicator_def Let_def
      del: power_numeral)

text \<open>
  Claim C1, amended: for every evaluation result that has the four principles, whenever
  the interpreter evaluates \<open>round(sum(points * weight) / sum(weight), 3)\<close> over the
  indicators of each principle and \<open>round(sum(points * weight) / sum(weight), 2)\<close> over
  all indicators of all principles to a value, the sums being taken from 0 in the order of
  the indicators (so that no weight sum is zero, each principle has at least one
  indicator, and nothing overflows), \<open>calcpoints\<close> returns exactly these values: for
  each principle the weighted average over that principle's indicators rounded to 3
  decimal places, and under \<open>total\<close> the weighted average over all indicators of all
  principles rounded to 2 decimal places.  The sums, the division and the rounding are
  those of the interpreter's arithmetic, whatever it is.
\<close>

theorem calcpoints_weighted_average:
  assumes f: "map_of result ''findable'' = Some f"
    and a: "map_of result ''accessible'' = Some a"
    and i: "map_of result ''interoperable'' = Some i"
    and r: "map_of result ''reusable'' = Some r"
    and vf: "rounded_average ar 3 f = Inr vf"
    and va: "rounded_average ar 3 a = Inr va"
    and vi: "rounded_average ar 3 i = Inr vi"
    and vr: "rounded_average ar 3 r = Inr vr"
    and vt: "rounded_average ar 2 (f @ a @ i @ r) = Inr vt"
  shows "map_sum id fst (calcpoints ar gettext result) =
           Inr [(''findable'', vf), (''accessible'', va), (''interoperable'', vi),
                (''reusable'', vr), (''total'', vt)]"
proof -
  let ?p0 = "zip (FAIR_PRINCIPLES @ [''total'']) [PInt 0, PInt 0, PInt 0, PInt 0, PInt 0]"
  from vt obtain P W qt where total: "add_points ar (PInt 0) (f @ a @ i @ r) = Inr P"
    "add_weights ar (PInt 0) (f @ a @ i @ r) = Inr W" "py_truediv ar P W = Inr qt"
    "vt = py_round ar qt 2"
    by (rule rounded_average_parts)
  from total(1) obtain p1 p2 p3 where pts: "add_points ar (PInt 0) f = Inr p1"
    "add_points ar p1 a = Inr p2" "add_points ar p2 i = Inr p3" "add_points ar p3 r = Inr P"
    by (auto simp: add_points_append split: sum.splits)
  from total(2) obtain w1 w2 w3 where wts: "add_weights ar (PInt 0) f = Inr w1"
    "add_weights ar w1 a = Inr w2" "add_weights ar w2 i = Inr w3" "add_weights ar w3 r = Inr W"
    by (auto simp: add_weights_append split: sum.splits)
  from principle_loop_step [OF f wts(1) pts(1) vf, of gettext "[''accessible'', ''interoperable'', ''reusable'']" ?p0]
  obtain f' where s1:
    "principle_loop ar gettext [''findable'', ''accessible'', ''interoperable'', ''reusable''] result ?p0
       (PInt 0, PInt 0) =
     principle_loop ar gettext [''accessible'', ''interoperable'', ''reusable'']
       (AList.update ''findable'' f' result) (AList.update ''findable'' vf ?p0) (p1, w1)"
    by blast
  let ?r1 = "AList.update ''findable'' f' result"
  let ?p1 = "AList.update ''findable'' vf ?p0"
  have a1: "map_of ?r1 ''accessible'' = Some a" using a by (simp add: map_of_update_other)
  from principle_loop_step [OF a1 wts(2) pts(2) va, of gettext "[''interoperable'', ''reusable'']" ?p1]
  obtain a' where s2:
    "principle_loop ar gettext [''accessible'', ''interoperable'', ''reusable''] ?r1 ?p1 (p1, w1) =
     principle_loop ar gettext [''interoperable'', ''reusable'']
       (AList.update ''accessible'' a' ?r1) (AList.update ''accessible'' va ?p1) (p2, w2)"
    by blast
  let ?r2 = "AList.update ''accessible'' a' ?r1"
  let ?p2 = "AList.update ''accessible'' va ?p1"
  have i2: "map_of ?r2 ''interoperable'' = Some i" using i by (simp add: map_of_update_other)
  from principle_loop_step [OF i2 wts(3) pts(3) vi, of gettext "[''reusable'']" ?p2]
  obtain i' where s3:
    "principle_loop ar gettext [''interoperable'', ''reusable''] ?r2 ?p2 (p2, w2) =
     principle_loop ar gettext [''reusable'']
       (AList.update ''interoperable'' i' ?r2) (AList.update ''interoperable'' vi ?p2) (p3, w3)"
    by blast
  let ?r3 = "AList.update ''interoperable'' i' ?r2"
  let ?p3 = "AList.update ''interoperable'' vi ?p2"
  have r3: "map_of ?r3 ''reusable'' = Some r" using r by (simp add: map_of_update_other)
  from principle_loop_step [OF r3 wts(4) pts(4) vr, of gettext "[]" ?p3]
  obtain r' where s4:
    "principle_loop ar gettext [''reusable''] ?r3 ?p3 (p3, w3) =
     principle_loop ar gettext []
       (AList.update ''reusable'' r' ?r3) (AList.update ''reusable'' vr ?p3) (P, W)"
    by blast
  have loop: "principle_loop ar gettext (butlast (FAIR_PRINCIPLES @ [''total''])) result ?p0
      (PInt 0, PInt 0) =
      Inr (AList.update ''reusable'' vr ?p3, P, W, AList.update ''reusable'' r' ?r3)"
    using s1 s2 s3 s4 by (simp add: FAIR_PRINCIPLES_def)
  show ?thesis
    unfolding calcpoints_def Let_def loop
    by (simp add: total(3,4) FAIR_PRINCIPLES_def)
qed

theorem calcpoints_weighted_average_witness:
  "map_sum id fst (calcpoints ex_arith (\<lambda>s. s) ex_scored) =
     Inr [(''findable'', PFloat (201 / 4)), (''accessible'', PFloat 100),
          (''interoperable'', PFloat 50), (''reusable'', PFloat (3 / 4)),
          (''total'', PFloat (201 / 4))]"
proof -
  let ?f = "[(''rda_f1_01m'', ex_indicator ''rda_f1_01m'' (PInt 100) (PInt 1)),
             (''rda_f1_01d'', ex_indicator ''rda_f1_01d'' (PFloat (1 / 2)) (PInt 1))]"
  let ?a = "[(''rda_a1_01m'', ex_indicator ''rda_a1_01m'' (PInt 100) (PInt 2))]"
  let ?i = "[(''rda_i1_01m'', ex_indicator ''rda_i1_01m'' (PInt 50) (PInt 2))]"
  let ?r = "[(''rda_r1_01m'', ex_indicator ''rda_r1_01m'' (PFloat (3 / 4)) (PInt 2))]"
  have look: "map_of ex_scored ''findable'' = Some ?f" "map_of ex_scored ''accessible'' = Some ?a"
    "map_of ex_scored ''interoperable'' = Some ?i" "map_of ex_scored ''reusable'' = Some ?r"
    by (simp_all add: ex_scored_def)
  have vals: "rounded_average ex_arith 3 ?f = Inr (PFloat (201 / 4))"
    "rounded_average ex_arith 3 ?a = Inr (PFloat 100)"
    "rounded_average ex_arith 3 ?i = Inr (PFloat 50)"
    "rounded_average ex_arith 3 ?r = Inr (PFloat (3 / 4))"
    "rounded_average ex_arith 2 (?f @ ?a @ ?i @ ?r) = Inr (PFloat (201 / 4))"
    by (simp_all add: rounded_average_def weighted_average_def weighted_points_def
        weight_sum_def ex_indicator_def ex_arith_def float_limit_def ex_rounds)
  show ?thesis
    using calcpoints_weighted_average [OF look vals, of "\<lambda>s. s"] .
qed

section \<open>Claim C2: a response without the requested identifier\<close>

text \<open>
  Claim C2 says that a response whose top-level mapping lacks the requested identifier
  is treated as an evaluation result with four empty principle maps, and that
  aggregation and rendering then succeed with zero rows.  \<open>main\<close> takes the default
  \<open>{}\<close> of \<open>results_all.get(identifier, {})\<close>, a mapping with no principle at all,
  and the first thing \<open>collect_score_data\<close> does with it is to read
  \<open>fair_results["findable"]\<close>.  So for every such response the rest of \<open>main\<close>
  raises \<open>KeyError\<close> for \<open>findable\<close> before any row is built or any table printed;
  the witness is a whole run of \<open>main\<close>.
\<close>

theorem report_missing_identifier_raises:
  "map_of (resp_results results_all) identifier = None \<longrightarrow>
     report w args identifier results_all st = (Inl (KeyError ''findable''), st)"
  by (simp add: report_def collect_score_data_def FAIR_PRINCIPLES_def getitem_def)

theorem report_missing_identifier_raises_witness:
  "main (ex_world ex_response_without_id) ex_args (init_state []) =
     (Inl (KeyError ''findable''),
      \<lparr>st_trace = [Connect ''127.0.0.1'' 9090,
                   HttpPost ''http://localhost:9090/v1.0/rda/rda_all''
                     \<lparr>pd_id = ''abc123'', pd_repo = Some ''oai-pmh'',
                      pd_oai_base = ''http://repo.example/oai'', pd_lang = ''EN''\<rparr>],
       st_stdin = [], st_title = None\<rparr>)"
proof -
  let ?st4 = "\<lparr>st_trace = [Connect ''127.0.0.1'' 9090,
                   HttpPost ''http://localhost:9090/v1.0/rda/rda_all''
                     \<lparr>pd_id = ''abc123'', pd_repo = Some ''oai-pmh'',
                      pd_oai_base = ''http://repo.example/oai'', pd_lang = ''EN''\<rparr>],
       st_stdin = [], st_title = None\<rparr> :: unit state"
  have m: "main (ex_world ex_response_without_id) ex_args (init_state []) =
           report (ex_world ex_response_without_id) ex_args ''abc123'' ex_response_without_id ?st4"
    by code_simp
  have absent: "map_of (resp_results ex_response_without_id) ''abc123'' = None"
    by (simp add: ex_response_without_id_def)
  show ?thesis
    using report_missing_identifier_raises
      [of ex_response_without_id "''abc123''" "ex_world ex_response_without_id" ex_args ?st4]
      absent m
    by simp
qed

section \<open>Claim C3: a principle without indicators\<close>

text \<open>
  Claim C3 says that a principle with zero indicators is turned into a defined
  \<open>EmptyPrincipleError\<close> or a not-applicable sentinel.  \<open>calcpoints\<close> has no such
  conversion: on the result whose four principles are all empty the division
  \<open>g_points / g_weight\<close> raises Python's own \<open>ZeroDivisionError\<close>.
\<close>

theorem calcpoints_empty_counterexample:
  "calcpoints ex_arith id ex_empty = Inl ZeroDivisionError"
  by (simp add: ex_empty_def calcpoints_def FAIR_PRINCIPLES_def getitem_def)

text \<open>
  Claim C3, amended: for every evaluation result that has the four principles and in
  which some principle has zero indicators, \<open>calcpoints\<close> returns no summary and no
  sentinel: it raises a raw arithmetic fault of the interpreter, \<open>ZeroDivisionError\<close>
  at the division for an empty principle, or \<open>OverflowError\<close> when the arithmetic of an
  earlier step overflows; no other error is produced.
\<close>

theorem calcpoints_empty_principle_raises:
  assumes "map_of result ''findable'' = Some f"
    and "map_of result ''accessible'' = Some a"
    and "map_of result ''interoperable'' = Some i"
    and "map_of result ''reusable'' = Some r"
    and "f = [] \<or> a = [] \<or> i = [] \<or> r = []"
  shows "calcpoints ar gettext result = Inl ZeroDivisionError \<or>
         calcpoints ar gettext result = Inl OverflowError"
proof -
  have "principle_loop ar gettext (butlast (FAIR_PRINCIPLES @ [''total''])) result
          (zip (FAIR_PRINCIPLES @ [''total'']) [PInt 0, PInt 0, PInt 0, PInt 0, PInt 0])
          (PInt 0, PInt 0) = Inl ZeroDivisionError \<or>
        principle_loop ar gettext (butlast (FAIR_PRINCIPLES @ [''total''])) result
          (zip (FAIR_PRINCIPLES @ [''total'']) [PInt 0, PInt 0, PInt 0, PInt 0, PInt 0])
          (PInt 0, PInt 0) = Inl OverflowError"
  proof (rule principle_loop_raises)
    show "distinct (butlast (FAIR_PRINCIPLES @ [''total'']))" by (simp add: FAIR_PRINCIPLES_def)
    show "\<forall>k\<in>set (butlast (FAIR_PRINCIPLES @ [''total''])). \<exists>inds. map_of result k = Some inds"
      using assms(1-4) by (simp add: FAIR_PRINCIPLES_def)
    show "\<exists>k\<in>set (butlast (FAIR_PRINCIPLES @ [''total''])). map_of result k = Some []"
      using assms by (auto simp: FAIR_PRINCIPLES_def)
  qed
  then show ?thesis by (auto simp: calcpoints_def)
qed

theorem calcpoints_empty_principle_raises_witness:
  "calcpoints ex_arith (\<lambda>s. s) ex_partly_empty = Inl ZeroDivisionError \<or>
   calcpoints ex_arith (\<lambda>s. s) ex_partly_empty = Inl OverflowError"
  using calcpoints_empty_principle_raises
    [of ex_partly_empty "[(''rda_f1_01m'', ex_indicator ''rda_f1_01m'' (PInt 100) (PInt 3))]"
        "[]" "[]" "[]" ex_arith "\<lambda>s. s"]
  by (simp add: ex_partly_empty_def)

section \<open>Claim C4: message normalization\<close>

lemma text_items_map: "text_items (map IStr ss) = Inr ss"
  by (induction ss) simp_all

lemma annotated_items_map:
  "annotated_items fr (map (\<lambda>(m, p). IRec \<lparr>mr_message = Some m, mr_points = Some p\<rparr>) rs) =
     Inr (map (\<lambda>(m, p). m @ '' (points: '' @ str_num fr p @ '')'') rs)"
  by (induction rs) (auto split: prod.splits)

text \<open>
  Claim C4: \<open>format_msg_for_table\<close> returns the string itself for plain text; the
  string representation for a single mapping; the placeholder \<open>Not available\<close> for an
  empty sequence; the newline-join of the items for a non-empty sequence of plain text;
  for a sequence of \<open>{message, points}\<close> records, the message of the single record
  (the placeholder if it has none) when there is exactly one, and the newline-join of
  \<open><message> (points: <points>)\<close> per record when there are more.
\<close>

theorem format_msg_for_table_cases:
  "format_msg_for_table sd fr (MStr s) = Inr s \<and>
   format_msg_for_table sd fr (MDict d) = Inr (sd d) \<and>
   format_msg_for_table sd fr (MList []) = Inr ''Not available'' \<and>
   (ss \<noteq> [] \<longrightarrow> format_msg_for_table sd fr (MList (map IStr ss)) = Inr (py_join newline ss)) \<and>
   format_msg_for_table sd fr (MList [IRec r]) =
     Inr (case mr_message r of Some m \<Rightarrow> m | None \<Rightarrow> ''Not available'') \<and>
   (length rs > 1 \<longrightarrow>
      format_msg_for_table sd fr
        (MList (map (\<lambda>(m, p). IRec \<lparr>mr_message = Some m, mr_points = Some p\<rparr>) rs)) =
      Inr (py_join newline (map (\<lambda>(m, p). m @ '' (points: '' @ str_num fr p @ '')'') rs)))"
proof -
  have c4: "format_msg_for_table sd fr (MList (map IStr ss)) = Inr (py_join newline ss)"
    if "ss \<noteq> []"
    using that by (simp add: format_msg_for_table_def text_items_map hd_map)
  have c6: "format_msg_for_table sd fr
        (MList (map (\<lambda>(m, p). IRec \<lparr>mr_message = Some m, mr_points = Some p\<rparr>) rs)) =
      Inr (py_join newline (map (\<lambda>(m, p). m @ '' (points: '' @ str_num fr p @ '')'') rs))"
    if len: "length rs > 1"
  proof -
    obtain m p rs' where rs: "rs = (m, p) # rs'" using len by (cases rs) auto
    have hd: "hd (map (\<lambda>(m, p). IRec \<lparr>mr_message = Some m, mr_points = Some p\<rparr>) rs) =
                IRec \<lparr>mr_message = Some m, mr_points = Some p\<rparr>"
      by (simp add: rs)
    show ?thesis
      unfolding format_msg_for_table_def using len
      by (auto simp: hd annotated_items_map simp del: annotated_items.simps)
  qed
  show ?thesis
    using c4 c6 by (simp add: format_msg_for_table_def)
qed

theorem format_msg_for_table_cases_witness:
  "format_msg_for_table (\<lambda>d::unit. ''{}'') tenths_repr (MStr ''plain'') = Inr ''plain'' \<and>
   format_msg_for_table (\<lambda>d::unit. ''{}'') tenths_repr (MDict ()) = Inr ''{}'' \<and>
   format_msg_for_table (\<lambda>d::unit. ''{}'') tenths_repr (MList []) = Inr ''Not available'' \<and>
   format_msg_for_table (\<lambda>d::unit. ''{}'') tenths_repr (MList [IStr ''x'', IStr ''y'']) =
     Inr (''x'' @ newline @ ''y'') \<and>
   format_msg_for_table (\<lambda>d::unit. ''{}'') tenths_repr
       (MList [IRec \<lparr>mr_message = Some ''ok'', mr_points = Some (PInt 1)\<rparr>]) = Inr ''ok'' \<and>
   format_msg_for_table (\<lambda>d::unit. ''{}'') tenths_repr
       (MList [IRec \<lparr>mr_message = Some ''a'', mr_points = Some (PFloat (1 / 2))\<rparr>,
               IRec \<lparr>mr_message = Some ''b'', mr_points = Some (PFloat (1 / 2))\<rparr>]) =
     Inr (''a (points: 0.5)'' @ newline @ ''b (points: 0.5)'')"
proof -
  have half: "tenths_repr (1 / 2) = ''0.5''" by code_simp
  show ?thesis
    using format_msg_for_table_cases
      [of "\<lambda>d::unit. ''{}''" tenths_repr "''plain''" "()" "[''x'', ''y'']"
          "\<lparr>mr_message = Some ''ok'', mr_points = Some (PInt 1)\<rparr>"
          "[(''a'', PFloat (1 / 2)), (''b'', PFloat (1 / 2))]"]
    by (simp add: half)
qed

section \<open>Claim C5: the readiness probe\<close>

text \<open>
  The loop stops at the first successful attempt, having slept after each failed one;
  when every attempt fails it ends with \<open>is_api_running\<close> false.  Attempts are counted
  from the connections already made in the run.
\<close>

lemma readiness_loop_success:
  "k < length is \<Longrightarrow>
   (\<forall>j<k. connect_ex w (''127.0.0.1'', 9090) (length (filter is_connect (st_trace st)) + j) \<noteq> 0) \<Longrightarrow>
   connect_ex w (''127.0.0.1'', 9090) (length (filter is_connect (st_trace st)) + k) = 0 \<Longrightarrow>
   readiness_loop w is st =
     (True, st\<lparr>st_trace := st_trace st
                  @ concat (replicate k [Connect ''127.0.0.1'' 9090, Sleep 5])
                  @ [Connect ''127.0.0.1'' 9090]\<rparr>)"
proof (induction "is" arbitrary: k st)
  case Nil
  then show ?case by simp
next
  case (Cons i rest)
  show ?case
  proof (cases k)
    case 0
    with Cons.prems show ?thesis
      by (simp add: is_port_open_def emit_def)
  next
    case (Suc k')
    let ?st' = "emit (Sleep 5) (emit (Connect ''127.0.0.1'' 9090) st)"
    have cnt: "length (filter is_connect (st_trace ?st')) = Suc (length (filter is_connect (st_trace st)))"
      by (simp add: emit_def)
    have first: "connect_ex w (''127.0.0.1'', 9090) (length (filter is_connect (st_trace st))) \<noteq> 0"
      using Cons.prems(2) Suc by (metis add.right_neutral zero_less_Suc)
    have "readiness_loop w rest ?st' =
            (True, ?st'\<lparr>st_trace := st_trace ?st'
                  @ concat (replicate k' [Connect ''127.0.0.1'' 9090, Sleep 5])
                  @ [Connect ''127.0.0.1'' 9090]\<rparr>)"
    proof (rule Cons.IH)
      show "k' < length rest" using Cons.prems(1) Suc by simp
      show "\<forall>j<k'. connect_ex w (''127.0.0.1'', 9090) (length (filter is_connect (st_trace ?st')) + j) \<noteq> 0"
        using Cons.prems(2) Suc cnt by (metis Suc_less_eq add_Suc_shift)
      show "connect_ex w (''127.0.0.1'', 9090) (length (filter is_connect (st_trace ?st')) + k') = 0"
        using Cons.prems(3) Suc cnt by simp
    qed
    then show ?thesis
      using first Suc by (simp add: is_port_open_def emit_def)
  qed
qed

lemma readiness_loop_failure:
  "(\<forall>j<length is. connect_ex w (''127.0.0.1'', 9090) (length (filter is_connect (st_trace st)) + j) \<noteq> 0) \<Longrightarrow>
   readiness_loop w is st =
     (False, st\<lparr>st_trace := st_trace st
                  @ concat (replicate (length is) [Connect ''127.0.0.1'' 9090, Sleep 5])\<rparr>)"
proof (induction "is" arbitrary: st)
  case Nil
  then show ?case by simp
next
  case (Cons i rest)
  let ?st' = "emit (Sleep 5) (emit (Connect ''127.0.0.1'' 9090) st)"
  have cnt: "length (filter is_connect (st_trace ?st')) = Suc (length (filter is_connect (st_trace st)))"
    by (simp add: emit_def)
  have first: "connect_ex w (''127.0.0.1'', 9090) (length (filter is_connect (st_trace st))) \<noteq> 0"
    using Cons.prems by (metis add.right_neutral length_Cons zero_less_Suc)
  have "readiness_loop w rest ?st' =
          (False, ?st'\<lparr>st_trace := st_trace ?st'
                  @ concat (replicate (length rest) [Connect ''127.0.0.1'' 9090, Sleep 5])\<rparr>)"
  proof (rule Cons.IH)
    show "\<forall>j<length rest. connect_ex w (''127.0.0.1'', 9090) (length (filter is_connect (st_trace ?st')) + j) \<noteq> 0"
      using Cons.prems cnt by (metis Suc_less_eq add_Suc_shift length_Cons)
  qed
  then show ?case
    using first by (simp add: is_port_open_def emit_def)
qed

text \<open>
  Claim C5: for every sequence of connection outcomes, if the service is first reachable
  on attempt \<open>k\<close> with \<open>1 \<le> k \<le> 4\<close>, the probe makes exactly \<open>k\<close> connection
  attempts (with a sleep after each of the \<open>k - 1\<close> failed ones) and goes on; if all 4
  attempts fail, the process exits through \<open>sys.exit(-1)\<close>, a non-zero status, after
  exactly 4 attempts.
\<close>

theorem readiness_gate_attempts:
  "(1 \<le> k \<and> k \<le> 4 \<and>
    (\<forall>j<k - 1. connect_ex w (''127.0.0.1'', 9090) (length (filter is_connect (st_trace st)) + j) \<noteq> 0) \<and>
    connect_ex w (''127.0.0.1'', 9090) (length (filter is_connect (st_trace st)) + (k - 1)) = 0
    \<longrightarrow> readiness_gate w st =
          (Inr (), st\<lparr>st_trace := st_trace st
                  @ concat (replicate (k - 1) [Connect ''127.0.0.1'' 9090, Sleep 5])
                  @ [Connect ''127.0.0.1'' 9090]\<rparr>)) \<and>
   ((\<forall>j<4. connect_ex w (''127.0.0.1'', 9090) (length (filter is_connect (st_trace st)) + j) \<noteq> 0)
    \<longrightarrow> readiness_gate w st =
          (Inl (SystemExit (- 1)), st\<lparr>st_trace := st_trace st
                  @ concat (replicate 4 [Connect ''127.0.0.1'' 9090, Sleep 5])\<rparr>))"
proof (intro conjI impI)
  assume a: "1 \<le> k \<and> k \<le> 4 \<and>
    (\<forall>j<k - 1. connect_ex w (''127.0.0.1'', 9090) (length (filter is_connect (st_trace st)) + j) \<noteq> 0) \<and>
    connect_ex w (''127.0.0.1'', 9090) (length (filter is_connect (st_trace st)) + (k - 1)) = 0"
  have len: "length [1..<5::nat] = 4" by simp
  have "readiness_loop w [1..<5] st =
     (True, st\<lparr>st_trace := st_trace st
                  @ concat (replicate (k - 1) [Connect ''127.0.0.1'' 9090, Sleep 5])
                  @ [Connect ''127.0.0.1'' 9090]\<rparr>)"
    by (rule readiness_loop_success) (use a len in auto)
  then show "readiness_gate w st =
          (Inr (), st\<lparr>st_trace := st_trace st
                  @ concat (replicate (k - 1) [Connect ''127.0.0.1'' 9090, Sleep 5])
                  @ [Connect ''127.0.0.1'' 9090]\<rparr>)"
    by (simp add: readiness_gate_def)
next
  assume a: "\<forall>j<4. connect_ex w (''127.0.0.1'', 9090) (length (filter is_connect (st_trace st)) + j) \<noteq> 0"
  have len: "length [1..<5::nat] = 4" by simp
  have "readiness_loop w [1..<5] st =
     (False, st\<lparr>st_trace := st_trace st
                  @ concat (replicate (length [1..<5::nat]) [Connect ''127.0.0.1'' 9090, Sleep 5])\<rparr>)"
    by (rule readiness_loop_failure) (use a len in auto)
  then show "readiness_gate w st =
          (Inl (SystemExit (- 1)), st\<lparr>st_trace := st_trace st
                  @ concat (replicate 4 [Connect ''127.0.0.1'' 9090, Sleep 5])\<rparr>)"
    unfolding len by (simp add: readiness_gate_def)
qed

theorem readiness_gate_attempts_witness:
  "readiness_gate ((ex_world ex_response)\<lparr>connect_ex := (\<lambda>addr n. if n < 2 then 111 else 0)\<rparr>)
     (init_state []) =
     (Inr (), \<lparr>st_trace = [Connect ''127.0.0.1'' 9090, Sleep 5, Connect ''127.0.0.1'' 9090, Sleep 5,
                            Connect ''127.0.0.1'' 9090],
               st_stdin = [], st_title = None\<rparr>) \<and>
   readiness_gate (ex_world_down ex_response) (init_state []) =
     (Inl (SystemExit (- 1)),
      \<lparr>st_trace = [Connect ''127.0.0.1'' 9090, Sleep 5, Connect ''127.0.0.1'' 9090, Sleep 5,
                   Connect ''127.0.0.1'' 9090, Sleep 5, Connect ''127.0.0.1'' 9090, Sleep 5],
       st_stdin = [], st_title = None\<rparr>)"
proof -
  have r: "replicate 4 [Connect ''127.0.0.1'' 9090, Sleep 5 :: unit event] =
           [[Connect ''127.0.0.1'' 9090, Sleep 5], [Connect ''127.0.0.1'' 9090, Sleep 5],
            [Connect ''127.0.0.1'' 9090, Sleep 5], [Connect ''127.0.0.1'' 9090, Sleep 5]]"
       "replicate 2 [Connect ''127.0.0.1'' 9090, Sleep 5 :: unit event] =
           [[Connect ''127.0.0.1'' 9090, Sleep 5], [Connect ''127.0.0.1'' 9090, Sleep 5]]"
    by (simp_all add: numeral_eq_Suc)
  show ?thesis
    using readiness_gate_attempts
        [of 3 "(ex_world ex_response)\<lparr>connect_ex := (\<lambda>addr n. if n < 2 then 111 else 0)\<rparr>"
            "init_state []"]
      readiness_gate_attempts [of 1 "ex_world_down ex_response" "init_state []"]
    by (simp add: init_state_def ex_world_down_def ex_world_def r)
qed

section \<open>Claim C6: choosing a candidate\<close>

text \<open>
  Claim C6: for a plugin with search and a non-empty candidate list, when the inputs
  begin with fewer than 5 inputs that are not valid indices followed by one that parses
  as an integer \<open>v\<close> in the inclusive range from 0 to the number of candidates minus 1,
  \<open>search\<close> returns the identifier of the candidate at index \<open>v\<close> (and keeps its
  title), having prompted once per input read; and when the first 5 inputs are all not
  valid, each has consumed one attempt and \<open>search\<close> returns the empty tuple without
  raising.  The witness is the case of the candidates A, B, C and the inputs
  \<open>x\<close>, \<open>7\<close>, \<open>1\<close>: the third attempt selects the candidate at index 1.
\<close>

theorem search_accepts_first_valid_index:
  assumes plugin: "arg_plugin args \<in> {Some ''epos'', Some ''epos_prod''}"
    and found: "get_search w (metadata_endpoint @ ''/resources/search'')
                  [(''facets'', ''false''), (''q'', keytext)] = Inr (Results (Some candidates))"
    and nonempty: "candidates \<noteq> []"
    and invalid: "\<forall>b \<in> set bad. \<not> valid_index (length candidates) b"
  shows "(st_stdin st = bad @ good # rest \<and> length bad < 5 \<and>
          py_int good = Some v \<and> 0 \<le> v \<and> v < int (length candidates) \<longrightarrow>
            fst (search w args metadata_endpoint keytext st) =
              Inr (IdStr (cand_id (candidates ! nat v))) \<and>
            st_stdin (snd (search w args metadata_endpoint keytext st)) = rest \<and>
            st_title (snd (search w args metadata_endpoint keytext st)) =
              Some (cand_title (candidates ! nat v)) \<and>
            length (filter is_prompt (st_trace (snd (search w args metadata_endpoint keytext st)))) =
              length (filter is_prompt (st_trace st)) + length bad + 1) \<and>
         (st_stdin st = bad @ rest \<and> length bad = 5 \<longrightarrow>
            fst (search w args metadata_endpoint keytext st) = Inr IdEmptyTuple \<and>
            st_stdin (snd (search w args metadata_endpoint keytext st)) = rest \<and>
            length (filter is_prompt (st_trace (snd (search w args metadata_endpoint keytext st)))) =
              length (filter is_prompt (st_trace st)) + 5)"
proof (intro conjI impI)
  let ?st2 = "emit (PrintTable \<lparr>field_names = [''Title'', ''Index''],
                                 table_rows = candidate_rows 0 candidates\<rparr>)
               (emit (HttpGet (metadata_endpoint @ ''/resources/search'')
                        [(''facets'', ''false''), (''q'', keytext)]) st)"
  have st2: "st_stdin ?st2 = st_stdin st" "st_title ?st2 = st_title st"
    "length (filter is_prompt (st_trace ?st2)) = length (filter is_prompt (st_trace st))"
    by (simp_all add: emit_def)
  have unfold: "search w args metadata_endpoint keytext st =
      (case input_loop (length candidates) 5 ?st2 of
         (Inl e, st3) \<Rightarrow> (Inl e, st3)
       | (Inr None, st3) \<Rightarrow> (Inr IdEmptyTuple, emit (PrintText ''Max tries, restart program'') st3)
       | (Inr (Some v), st3) \<Rightarrow>
           (Inr (IdStr (cand_id (candidates ! nat v))),
            st3\<lparr>st_title := Some (cand_title (candidates ! nat v))\<rparr>))"
    using plugin found by (simp add: search_def Let_def)
  {
    assume a: "st_stdin st = bad @ good # rest \<and> length bad < 5 \<and>
          py_int good = Some v \<and> 0 \<le> v \<and> v < int (length candidates)"
    from input_loop_accepts [of ?st2 bad good rest 5 "length candidates" v]
    obtain st3 where st3: "input_loop (length candidates) 5 ?st2 = (Inr (Some v), st3)"
      "st_stdin st3 = rest"
      "length (filter is_prompt (st_trace st3)) =
         length (filter is_prompt (st_trace st)) + length bad + 1"
      using a invalid st2 by auto
    show "fst (search w args metadata_endpoint keytext st) =
              Inr (IdStr (cand_id (candidates ! nat v)))"
      unfolding unfold st3(1) by (simp add: st3(2,3))
    show "st_stdin (snd (search w args metadata_endpoint keytext st)) = rest"
      unfolding unfold st3(1) by (simp add: st3(2,3))
    show "st_title (snd (search w args metadata_endpoint keytext st)) =
              Some (cand_title (candidates ! nat v))"
      unfolding unfold st3(1) by (simp add: st3(2,3))
    show "length (filter is_prompt (st_trace (snd (search w args metadata_endpoint keytext st)))) =
              length (filter is_prompt (st_trace st)) + length bad + 1"
      unfolding unfold st3(1) by (simp add: st3(2,3))
  }
  {
    assume a: "st_stdin st = bad @ rest \<and> length bad = 5"
    from input_loop_exhausted [of ?st2 bad rest 5 "length candidates"]
    obtain st3 where st3: "input_loop (length candidates) 5 ?st2 = (Inr None, st3)"
      "st_stdin st3 = rest"
      "length (filter is_prompt (st_trace st3)) = length (filter is_prompt (st_trace st)) + 5"
      using a invalid st2 by auto
    show "fst (search w args metadata_endpoint keytext st) = Inr IdEmptyTuple"
      unfolding unfold st3(1) by (simp add: st3(2,3))
    show "st_stdin (snd (search w args metadata_endpoint keytext st)) = rest"
      unfolding unfold st3(1) by (simp add: st3(2,3) emit_def)
    show "length (filter is_prompt (st_trace (snd (search w args metadata_endpoint keytext st)))) =
              length (filter is_prompt (st_trace st)) + 5"
      unfolding unfold st3(1) by (simp add: st3(2,3) emit_def)
  }
qed

theorem search_accepts_first_valid_index_witness:
  "fst (search (ex_world ex_response) ex_search_args ''http://repo.example/api''
          ''quake'' (init_state [''x'', ''7'', ''1''])) = Inr (IdStr ''id-b'') \<and>
   length (filter is_prompt (st_trace (snd (search (ex_world ex_response) ex_search_args
          ''http://repo.example/api'' ''quake'' (init_state [''x'', ''7'', ''1'']))))) = 3 \<and>
   fst (search (ex_world ex_response) ex_search_args ''http://repo.example/api''
          ''quake'' (init_state [''x'', ''7'', ''9'', ''-1'', ''1.0''])) = Inr IdEmptyTuple"
proof -
  have inv: "\<forall>b \<in> set [''x'', ''7'']. \<not> valid_index (length ex_candidates) b"
    "\<forall>b \<in> set [''x'', ''7'', ''9'', ''-1'', ''1.0'']. \<not> valid_index (length ex_candidates) b"
    by code_simp+
  have good: "py_int ''1'' = Some 1" by code_simp
  have plugin: "arg_plugin ex_search_args \<in> {Some ''epos'', Some ''epos_prod''}"
    by (simp add: ex_search_args_def)
  have found: "get_search (ex_world ex_response) (''http://repo.example/api'' @ ''/resources/search'')
                  [(''facets'', ''false''), (''q'', ''quake'')] = Inr (Results (Some ex_candidates))"
    by (simp add: ex_world_def)
  have ne: "ex_candidates \<noteq> []" by (simp add: ex_candidates_def)
  have nth: "cand_id (ex_candidates ! Suc 0) = ''id-b''" by (simp add: ex_candidates_def)
  have len: "length ex_candidates = 3" by (simp add: ex_candidates_def)
  from search_accepts_first_valid_index [OF plugin found ne inv(1),
      of "init_state [''x'', ''7'', ''1'']" "''1''" "[]" 1]
  have a: "fst (search (ex_world ex_response) ex_search_args ''http://repo.example/api''
          ''quake'' (init_state [''x'', ''7'', ''1''])) = Inr (IdStr ''id-b'')"
    "length (filter is_prompt (st_trace (snd (search (ex_world ex_response) ex_search_args
          ''http://repo.example/api'' ''quake'' (init_state [''x'', ''7'', ''1'']))))) = 3"
    by (simp_all add: init_state_def good nth len eval_nat_numeral)
  from search_accepts_first_valid_index [OF plugin found ne inv(2),
      of "init_state [''x'', ''7'', ''9'', ''-1'', ''1.0'']" "''1''" "[]" 1]
  have b: "fst (search (ex_world ex_response) ex_search_args ''http://repo.example/api''
          ''quake'' (init_state [''x'', ''7'', ''9'', ''-1'', ''1.0''])) = Inr IdEmptyTuple"
    by (simp add: init_state_def)
  from a b show ?thesis by simp
qed

section \<open>Claim C7: all attempts used up\<close>

lemma readiness_loop_posts:
  "filter is_post (st_trace (snd (readiness_loop w is st))) = filter is_post (st_trace st)"
  by (induction "is" arbitrary: st) (auto simp: is_port_open_def emit_def split: bool.splits)

lemma startup_posts:
  "filter is_post (st_trace (snd (startup w args st))) = filter is_post (st_trace st)"
proof -
  have gate: "filter is_post (st_trace (snd (readiness_gate w s))) = filter is_post (st_trace s)" for s
    using readiness_loop_posts [of w "[1..<5]" s]
    by (auto simp: readiness_gate_def split: prod.splits)
  have res: "filter is_post (st_trace (snd (resolve_endpoint w args st))) = filter is_post (st_trace st)"
    by (simp add: resolve_endpoint_def emit_def Let_def split: option.splits sum.splits)
  show ?thesis
  proof (cases "resolve_endpoint w args st")
    case (Pair r st1)
    with res have st1: "filter is_post (st_trace st1) = filter is_post (st_trace st)" by simp
    show ?thesis
    proof (cases r)
      case (Inl e)
      with Pair st1 show ?thesis by (simp add: startup_def)
    next
      case (Inr v)
      show ?thesis
      proof (cases v)
        case (Inl returned)
        with Pair Inr st1 show ?thesis by (simp add: startup_def)
      next
        case (Inr metadata_endpoint)
        with Pair \<open>r = Inr v\<close> st1 gate [of st1] show ?thesis
          by (auto simp: startup_def split: prod.splits sum.splits)
      qed
    qed
  qed
qed

text \<open>
  Claim C7 says that after 5 invalid inputs the caller halts cleanly, without a crash
  and without an evaluation request.  \<open>search\<close> does return the empty tuple without
  raising, and no request is sent; but \<open>main\<close> does not test what \<open>search\<close>
  returned and goes on to build its log line by
  \<open>"Evaluating item with id : " + identifier\<close>, which raises \<open>TypeError\<close> for the
  empty tuple.  So for every run of \<open>main\<close> with a search in which the first 5 inputs
  are all invalid, \<open>main\<close> ends in an uncaught \<open>TypeError\<close>, having sent no
  evaluation request.
\<close>

theorem main_raises_after_exhausted_attempts:
  assumes started: "startup w args st = (Inr (Inr metadata_endpoint), st2)"
    and search: "arg_search args = Some keytext" "keytext \<noteq> []"
    and plugin: "arg_plugin args \<in> {Some ''epos'', Some ''epos_prod''}"
    and found: "get_search w (metadata_endpoint @ ''/resources/search'')
                  [(''facets'', ''false''), (''q'', keytext)] = Inr (Results (Some candidates))"
    and inputs: "st_stdin st2 = bad @ rest" "length bad = 5"
    and invalid: "\<forall>b \<in> set bad. \<not> valid_index (length candidates) b"
  shows "fst (main w args st) = Inl TypeError \<and>
         filter is_post (st_trace (snd (main w args st))) = filter is_post (st_trace st)"
proof -
  let ?st2' = "emit (PrintTable \<lparr>field_names = [''Title'', ''Index''],
                                 table_rows = candidate_rows 0 candidates\<rparr>)
               (emit (HttpGet (metadata_endpoint @ ''/resources/search'')
                        [(''facets'', ''false''), (''q'', keytext)]) st2)"
  have pre: "st_stdin ?st2' = bad @ rest" "filter is_post (st_trace ?st2') = filter is_post (st_trace st2)"
    using inputs(1) by (simp_all add: emit_def)
  from input_loop_exhausted [OF pre(1) inputs(2) invalid]
  obtain st3 where st3: "input_loop (length candidates) 5 ?st2' = (Inr None, st3)"
    "filter is_post (st_trace st3) = filter is_post (st_trace st2)"
    using pre(2) by auto
  have srch: "search w args metadata_endpoint keytext st2 =
                (Inr IdEmptyTuple, emit (PrintText ''Max tries, restart program'') st3)"
    using plugin found by (simp add: search_def Let_def st3(1))
  have chosen: "choose_identifier w args metadata_endpoint st2 =
                (Inr IdEmptyTuple, emit (PrintText ''Max tries, restart program'') st3)"
    using search srch by (simp add: choose_identifier_def)
  have m: "main w args st = (Inl TypeError, emit (PrintText ''Max tries, restart program'') st3)"
    by (simp add: main_def started chosen)
  have "filter is_post (st_trace st2) = filter is_post (st_trace st)"
    using startup_posts [of w args st] started by simp
  with m st3(2) show ?thesis by (simp add: emit_def)
qed

theorem main_raises_after_exhausted_attempts_witness:
  "fst (main (ex_world ex_response) ex_search_args
          (init_state [''x'', ''7'', ''9'', ''-1'', ''1.0''])) = Inl TypeError \<and>
   filter is_post (st_trace (snd (main (ex_world ex_response) ex_search_args
          (init_state [''x'', ''7'', ''9'', ''-1'', ''1.0''])))) = []"
proof -
  let ?st2 = "\<lparr>st_trace = [Connect ''127.0.0.1'' 9090],
              st_stdin = [''x'', ''7'', ''9'', ''-1'', ''1.0''], st_title = None\<rparr> :: unit state"
  have started: "startup (ex_world ex_response) ex_search_args
                   (init_state [''x'', ''7'', ''9'', ''-1'', ''1.0'']) =
                 (Inr (Inr ''http://repo.example/oai''), ?st2)"
    by code_simp
  have search: "arg_search ex_search_args = Some ''quake''" "''quake'' \<noteq> []"
    by (simp_all add: ex_search_args_def)
  have plugin: "arg_plugin ex_search_args \<in> {Some ''epos'', Some ''epos_prod''}"
    by (simp add: ex_search_args_def)
  have found: "get_search (ex_world ex_response) (''http://repo.example/oai'' @ ''/resources/search'')
                  [(''facets'', ''false''), (''q'', ''quake'')] = Inr (Results (Some ex_candidates))"
    by (simp add: ex_world_def)
  have inputs: "st_stdin ?st2 = [''x'', ''7'', ''9'', ''-1'', ''1.0''] @ []"
    "length [''x'', ''7'', ''9'', ''-1'', ''1.0''] = 5"
    by simp_all
  have invalid: "\<forall>b \<in> set [''x'', ''7'', ''9'', ''-1'', ''1.0'']. \<not> valid_index (length ex_candidates) b"
    by code_simp
  show ?thesis
    using main_raises_after_exhausted_attempts
      [OF started search plugin found inputs invalid]
    by (simp add: init_state_def)
qed

section \<open>Claim C8: storing the rows\<close>

text \<open>
  Rows of four cells make a frame of four columns with no missing value, whose third
  column holds the scores; in the records of the CSV file each row follows its index and
  has the coerced score in the place of the original one.
\<close>

lemma frame_width_uniform:
  "rows \<noteq> [] \<Longrightarrow> \<forall>row \<in> set rows. length row = n \<Longrightarrow> frame_width rows = n"
proof (induction rows)
  case Nil
  then show ?case by simp
next
  case (Cons row rows)
  show ?case
  proof (cases "rows = []")
    case True
    with Cons.prems show ?thesis by (simp add: frame_width_def)
  next
    case False
    with Cons have "frame_width rows = n" by simp
    with Cons.prems show ?thesis by (simp add: frame_width_def)
  qed
qed

lemma four_cells:
  assumes "length row = 4"
  obtains c0 c1 c2 c3 where "row = [c0, c1, c2, c3]"
  using assms by (auto simp: length_Suc_conv numeral_eq_Suc)

lemma score_replaced:
  "length row = 4 \<Longrightarrow>
   (map Some row)[2 := c] = [Some (row ! 0), Some (row ! 1), c, Some (row ! 3)]"
  by (erule four_cells) (simp add: numeral_eq_Suc)

lemma frame_of_rows:
  assumes "score_data \<noteq> []" and "\<forall>row \<in> set score_data. length row = 4"
  shows "set_columns [''fair_indicator'', ''fair_principle'', ''score'', ''message'']
           (DataFrame score_data) =
         Inr \<lparr>df_columns = [CStr ''fair_indicator'', CStr ''fair_principle'',
                            CStr ''score'', CStr ''message''],
              df_rows = map (map Some) score_data\<rparr>"
proof -
  from assms have "frame_width score_data = 4" by (rule frame_width_uniform)
  moreover have "map (\<lambda>row. map Some row @ replicate (4 - length row) None) score_data =
      map (map Some) score_data"
    using assms(2) by simp
  ultimately show ?thesis by (simp add: set_columns_def DataFrame_def)
qed

lemma score_column:
  "\<forall>row \<in> set score_data. length row = 4 \<Longrightarrow>
   get_column 2 \<lparr>df_columns = labels, df_rows = map (map Some) score_data\<rparr> =
     map (\<lambda>row. Some (row ! 2)) score_data"
  by (simp add: get_column_def)

lemma csv_records:
  "\<forall>row \<in> set rows. length row = 4 \<Longrightarrow>
   map (\<lambda>(i, row). Some (CNum (PInt (int i))) # row)
     (enumerate n (map (\<lambda>(row, c). row[2 := c])
        (zip (map (map Some) rows) (map (map_option CNum) scores)))) =
   map (\<lambda>(i, row, score).
          [Some (CNum (PInt (int i))), Some (row ! 0), Some (row ! 1), map_option CNum score,
           Some (row ! 3)])
     (enumerate n (zip rows scores))"
proof (induction rows arbitrary: n scores)
  case Nil
  then show ?case by simp
next
  case (Cons row rows)
  show ?case
  proof (cases scores)
    case Nil
    then show ?thesis by simp
  next
    case (Cons score scores')
    with Cons.prems Cons.IH [of "Suc n" scores'] show ?thesis
      by (simp add: score_replaced)
  qed
qed

lemma ex_scores:
  "w_to_numeric (ex_world ex_response) (map (\<lambda>row. Some (row ! 2)) ex_rows) =
     Inr [Some (PFloat 100), Some (PFloat (1 / 2))]"
  by code_simp

text \<open>
  Claim C8 says that every request with format \<open>csv\<close> and identifier \<open>abc123\<close>
  creates the file, and that the file contains exactly the four columns.  With no rows the
  frame has no columns, the assignment of the four column labels raises \<open>ValueError\<close>,
  and nothing is written.  Where the file system does not let the file be created,
  \<open>to_csv\<close> raises \<open>OSError\<close>.  And the file written for the two rows of
  \<open>ex_rows\<close> has five columns: the first is the row index, which \<open>to_csv\<close> writes by
  default under an empty header field.
\<close>

theorem store_csv_counterexample:
  "store (ex_world ex_response) ''abc123'' [] ''csv'' ''/tmp'' (init_state []) =
     (Inl ValueError, init_state []) \<and>
   store (ex_world_read_only ex_response) ''abc123'' ex_rows ''csv'' ''/tmp'' (init_state []) =
     (Inl OSError, init_state []) \<and>
   store (ex_world ex_response) ''abc123'' ex_rows ''csv'' ''/tmp'' (init_state []) =
     (Inr (),
      \<lparr>st_trace =
         [WriteFile ''/tmp/fair_eva_results-abc123.csv''
            (CsvFile [CStr '''', CStr ''fair_indicator'', CStr ''fair_principle'',
                      CStr ''score'', CStr ''message'']
               [[Some (CNum (PInt 0)), Some (CStr ''RDA-F1-01M''),
                 Some (CStr ''Metadata is identified by a persistent identifier''),
                 Some (CNum (PFloat 100)), Some (CStr ''Not available'')],
                [Some (CNum (PInt 1)), Some (CStr ''RDA-F1-01D''),
                 Some (CStr ''Data is identified by a persistent identifier''),
                 Some (CNum (PFloat (1 / 2))), Some (CStr ''Not available'')]])],
       st_stdin = [], st_title = None\<rparr>)"
  by code_simp

text \<open>
  Claim C8, amended: for every request with a format outside \<open>feather\<close> and
  \<open>csv\<close>, \<open>store\<close> fails and no file is created: by \<open>sys.exit(-1)\<close> when the
  rows (at least one, each of four cells) make a frame of four columns whose score column
  \<open>pd.to_numeric\<close> accepts, and otherwise by the error of the column assignment or of
  the coercion, which comes first.  For every request with format \<open>csv\<close>, identifier
  \<open>abc123\<close> and at least one row, every row having four cells, \<open>pd.to_numeric\<close>
  accepting the score column, and the file system letting the file be created, \<open>store\<close>
  creates the file \<open>/tmp/fair_eva_results-abc123.csv\<close> containing exactly five
  columns: the row index under an empty header field, and the four columns
  \<open>fair_indicator\<close>, \<open>fair_principle\<close>, \<open>score\<close> and \<open>message\<close>, with one
  record per row and the score column as \<open>pd.to_numeric\<close> returned it.
\<close>

theorem store_unsupported_or_csv:
  "(file_format \<notin> {''feather'', ''csv''} \<longrightarrow>
      isl (fst (store w identifier score_data file_format path st)) \<and>
      snd (store w identifier score_data file_format path st) = st) \<and>
   (file_format \<notin> {''feather'', ''csv''} \<and> score_data \<noteq> [] \<and>
    (\<forall>row \<in> set score_data. length row = 4) \<and>
    w_to_numeric w (map (\<lambda>row. Some (row ! 2)) score_data) = Inr scores \<longrightarrow>
      store w identifier score_data file_format path st = (Inl (SystemExit (- 1)), st)) \<and>
   (score_data \<noteq> [] \<and> (\<forall>row \<in> set score_data. length row = 4) \<and>
    w_to_numeric w (map (\<lambda>row. Some (row ! 2)) score_data) = Inr scores \<and>
    length scores = length score_data \<and>
    w_can_create w ''/tmp/fair_eva_results-abc123.csv'' \<longrightarrow>
      store w ''abc123'' score_data ''csv'' ''/tmp'' st =
        (Inr (),
         emit (WriteFile ''/tmp/fair_eva_results-abc123.csv''
                 (CsvFile [CStr '''', CStr ''fair_indicator'', CStr ''fair_principle'',
                           CStr ''score'', CStr ''message'']
                    (map (\<lambda>(i, row, score).
                            [Some (CNum (PInt (int i))), Some (row ! 0), Some (row ! 1),
                             map_option CNum score, Some (row ! 3)])
                       (enumerate 0 (zip score_data scores))))) st))"
proof (intro conjI impI)
  assume "file_format \<notin> {''feather'', ''csv''}"
  then show "isl (fst (store w identifier score_data file_format path st))"
    by (auto simp: store_def Let_def split: sum.splits)
next
  assume "file_format \<notin> {''feather'', ''csv''}"
  then show "snd (store w identifier score_data file_format path st) = st"
    by (auto simp: store_def Let_def split: sum.splits)
next
  assume a: "file_format \<notin> {''feather'', ''csv''} \<and> score_data \<noteq> [] \<and>
    (\<forall>row \<in> set score_data. length row = 4) \<and>
    w_to_numeric w (map (\<lambda>row. Some (row ! 2)) score_data) = Inr scores"
  then have cols: "set_columns [''fair_indicator'', ''fair_principle'', ''score'', ''message'']
           (DataFrame score_data) =
         Inr \<lparr>df_columns = [CStr ''fair_indicator'', CStr ''fair_principle'',
                            CStr ''score'', CStr ''message''],
              df_rows = map (map Some) score_data\<rparr>"
    by (intro frame_of_rows) auto
  from a have col: "get_column 2 \<lparr>df_columns = [CStr ''fair_indicator'', CStr ''fair_principle'',
                            CStr ''score'', CStr ''message''],
              df_rows = map (map Some) score_data\<rparr> =
      map (\<lambda>row. Some (row ! 2)) score_data"
    by (intro score_column) auto
  with a have num: "w_to_numeric w (get_column 2 \<lparr>df_columns = [CStr ''fair_indicator'',
                            CStr ''fair_principle'', CStr ''score'', CStr ''message''],
              df_rows = map (map Some) score_data\<rparr>) = Inr scores"
    by simp
  show "store w identifier score_data file_format path st = (Inl (SystemExit (- 1)), st)"
    unfolding store_def cols using a by (simp add: num Let_def)
next
  assume a: "score_data \<noteq> [] \<and> (\<forall>row \<in> set score_data. length row = 4) \<and>
    w_to_numeric w (map (\<lambda>row. Some (row ! 2)) score_data) = Inr scores \<and>
    length scores = length score_data \<and>
    w_can_create w ''/tmp/fair_eva_results-abc123.csv''"
  then have cols: "set_columns [''fair_indicator'', ''fair_principle'', ''score'', ''message'']
           (DataFrame score_data) =
         Inr \<lparr>df_columns = [CStr ''fair_indicator'', CStr ''fair_principle'',
                            CStr ''score'', CStr ''message''],
              df_rows = map (map Some) score_data\<rparr>"
    by (intro frame_of_rows) auto
  from a have col: "get_column 2 \<lparr>df_columns = [CStr ''fair_indicator'', CStr ''fair_principle'',
                            CStr ''score'', CStr ''message''],
              df_rows = map (map Some) score_data\<rparr> =
      map (\<lambda>row. Some (row ! 2)) score_data"
    by (intro score_column) auto
  with a have num: "w_to_numeric w (get_column 2 \<lparr>df_columns = [CStr ''fair_indicator'',
                            CStr ''fair_principle'', CStr ''score'', CStr ''message''],
              df_rows = map (map Some) score_data\<rparr>) = Inr scores"
    by simp
  from a have recs: "map (\<lambda>(i, row). Some (CNum (PInt (int i))) # row)
     (enumerate 0 (map (\<lambda>(row, c). row[2 := c])
        (zip (map (map Some) score_data) (map (map_option CNum) scores)))) =
   map (\<lambda>(i, row, score).
          [Some (CNum (PInt (int i))), Some (row ! 0), Some (row ! 1), map_option CNum score,
           Some (row ! 3)])
     (enumerate 0 (zip score_data scores))"
    by (intro csv_records) auto
  have path: "path_join ''/tmp'' (''fair_eva_results-'' @ ''abc123'' @ ''.'' @ ''csv'') =
                ''/tmp/fair_eva_results-abc123.csv''"
    by (simp add: path_join_def)
  show "store w ''abc123'' score_data ''csv'' ''/tmp'' st =
        (Inr (),
         emit (WriteFile ''/tmp/fair_eva_results-abc123.csv''
                 (CsvFile [CStr '''', CStr ''fair_indicator'', CStr ''fair_principle'',
                           CStr ''score'', CStr ''message'']
                    (map (\<lambda>(i, row, score).
                            [Some (CNum (PInt (int i))), Some (row ! 0), Some (row ! 1),
                             map_option CNum score, Some (row ! 3)])
                       (enumerate 0 (zip score_data scores))))) st)"
    unfolding store_def cols using a
    by (simp add: num set_column_def csv_table_def write_file_def Let_def path recs
        del: append.simps)
qed

theorem store_unsupported_or_csv_witness:
  "isl (fst (store (ex_world ex_response) ''abc123'' ex_rows ''xml'' ''/tmp'' (init_state []))) \<and>
   snd (store (ex_world ex_response) ''abc123'' ex_rows ''xml'' ''/tmp'' (init_state [])) =
     init_state [] \<and>
   store (ex_world ex_response) ''abc123'' ex_rows ''xml'' ''/tmp'' (init_state []) =
     (Inl (SystemExit (- 1)), init_state []) \<and>
   store (ex_world ex_response) ''abc123'' ex_rows ''csv'' ''/tmp'' (init_state []) =
     (Inr (),
      \<lparr>st_trace =
         [WriteFile ''/tmp/fair_eva_results-abc123.csv''
            (CsvFile [CStr '''', CStr ''fair_indicator'', CStr ''fair_principle'',
                      CStr ''score'', CStr ''message'']
               [[Some (CNum (PInt 0)), Some (CStr ''RDA-F1-01M''),
                 Some (CStr ''Metadata is identified by a persistent identifier''),
                 Some (CNum (PFloat 100)), Some (CStr ''Not available'')],
                [Some (CNum (PInt 1)), Some (CStr ''RDA-F1-01D''),
                 Some (CStr ''Data is identified by a persistent identifier''),
                 Some (CNum (PFloat (1 / 2))), Some (CStr ''Not available'')]])],
       st_stdin = [], st_title = None\<rparr>)"
proof -
  have fmt: "''xml'' \<notin> {''feather'', ''csv''}" by simp
  have rows: "ex_rows \<noteq> []" "\<forall>row \<in> set ex_rows. length row = 4"
    by (simp_all add: ex_rows_def)
  have len: "length [Some (PFloat 100), Some (PFloat (1 / 2))] = length ex_rows"
    by (simp add: ex_rows_def)
  have can: "w_can_create (ex_world ex_response) ''/tmp/fair_eva_results-abc123.csv''"
    by (simp add: ex_world_def)
  have recs: "map (\<lambda>(i, row, score).
                    [Some (CNum (PInt (int i))), Some (row ! 0), Some (row ! 1),
                     map_option CNum score, Some (row ! 3)])
                (enumerate 0 (zip ex_rows [Some (PFloat 100), Some (PFloat (1 / 2))])) =
               [[Some (CNum (PInt 0)), Some (CStr ''RDA-F1-01M''),
                 Some (CStr ''Metadata is identified by a persistent identifier''),
                 Some (CNum (PFloat 100)), Some (CStr ''Not available'')],
                [Some (CNum (PInt 1)), Some (CStr ''RDA-F1-01D''),
                 Some (CStr ''Data is identified by a persistent identifier''),
                 Some (CNum (PFloat (1 / 2))), Some (CStr ''Not available'')]]"
    by (simp add: ex_rows_def)
  show ?thesis
    using store_unsupported_or_csv
      [of "''xml''" "ex_world ex_response" "''abc123''" ex_rows "''/tmp''" "init_state []"
          "[Some (PFloat 100), Some (PFloat (1 / 2))]"]
      fmt rows ex_scores len can
    unfolding recs by (simp add: emit_def init_state_def)
qed

section \<open>Claim C9: the summary table\<close>

lemma table_body_append: "table_body (xs @ ys) = table_body xs @ table_body ys"
  by (induction xs) auto

lemma add_rows_ok:
  "\<forall>row \<in> set rows. length row = length (field_names table) \<Longrightarrow>
   add_rows rows table = Inr (table\<lparr>table_rows := table_rows table @ map (\<lambda>row. (row, False)) rows\<rparr>)"
proof (induction rows arbitrary: table)
  case Nil
  then show ?case by simp
next
  case (Cons row rows)
  let ?t = "table\<lparr>table_rows := table_rows table @ [(row, False)]\<rparr>"
  have "add_rows rows ?t = Inr (?t\<lparr>table_rows := table_rows ?t @ map (\<lambda>row. (row, False)) rows\<rparr>)"
    using Cons.prems by (intro Cons.IH) simp
  with Cons.prems show ?case by (simp add: add_row_def)
qed

lemma table_body_plain: "table_body (map (\<lambda>row. (row, False)) rows) = map Row rows"
  by (induction rows) auto

lemma summary_loop_body:
  assumes "length (field_names t) = 2"
    and "principle_len = principle_count + length ps"
    and "\<forall>p \<in> set ps. is_float (snd p)"
  shows "\<exists>t'. summary_loop principle_len ps (principle_count, False, t) = Inr t' \<and>
           field_names t' = field_names t \<and>
           table_body (table_rows t') =
             table_body (table_rows t) @ (if ps = [] then [] else map (Row \<circ> principle_row) ps @ [Rule])"
  using assms
proof (induction ps arbitrary: principle_count t)
  case Nil
  then show ?case by simp
next
  case (Cons p ps)
  obtain principle_name principle_score where p: "p = (principle_name, principle_score)"
    by (cases p)
  from Cons.prems(3) p obtain x where x: "principle_score = PFloat x"
    by (cases principle_score) auto
  have row: "[CStr (capitalize principle_name), CStr (fmt_2f x)] = principle_row p"
    by (simp add: principle_row_def p x)
  show ?case
  proof (cases "ps = []")
    case True
    then have last: "principle_count + 1 = principle_len" using Cons.prems(2) by simp
    show ?thesis
      using True last Cons.prems(1) row
      by (simp add: p x add_row_def Let_def table_body_append)
  next
    case False
    then have notlast: "principle_count + 1 \<noteq> principle_len" using Cons.prems(2) by (cases ps) auto
    let ?t1 = "t\<lparr>table_rows := table_rows t @ [(principle_row p, False)]\<rparr>"
    have step: "summary_loop principle_len (p # ps) (principle_count, False, t) =
                summary_loop principle_len ps (principle_count + 1, False, ?t1)"
      using notlast Cons.prems(1) row by (simp add: p x add_row_def Let_def)
    have "\<exists>t'. summary_loop principle_len ps (principle_count + 1, False, ?t1) = Inr t' \<and>
           field_names t' = field_names ?t1 \<and>
           table_body (table_rows t') =
             table_body (table_rows ?t1) @ (if ps = [] then [] else map (Row \<circ> principle_row) ps @ [Rule])"
      using Cons.prems by (intro Cons.IH) auto
    then show ?thesis
      unfolding step using False by (auto simp: table_body_append)
  qed
qed

text \<open>
  Claim C9 places the visual divider immediately before the last principle row.
  \<open>print_table\<close> sets the divider flag on the last principle row itself, and the table
  library draws the rule under the row that carries the flag.  In the summary printed
  for \<open>ex_totals\<close> the row of \<open>Interoperable\<close> is followed at once by the row of
  \<open>Reusable\<close>, the last principle row, and the rule stands after that row, before the
  \<open>Total\<close> row.
\<close>

theorem print_table_divider_counterexample:
  "map_sum id (map (table_body \<circ> table_rows)) (print_table ex_rows ex_totals) =
     Inr [[Row [CStr ''Findable'', CStr ''50.25''],
           Row [CStr ''Accessible'', CStr ''100.00''],
           Row [CStr ''Interoperable'', CStr ''100.00''],
           Row [CStr ''Reusable'', CStr ''0.50''],
           Rule,
           Row [CStr ''Total'', CNum (PFloat (301 / 5))]],
          map Row ex_rows]"
  by code_simp

text \<open>
  Claim C9, amended: for every non-empty totals mapping (with float scores, as
  \<open>calcpoints\<close> returns them, and detail rows of four cells), \<open>print_table\<close> prints
  the summary table before the detail table; the summary has one row per principle, in
  order, showing the capitalized principle name and its score formatted to 2 decimals, a
  visual divider immediately after the last principle row, and a final \<open>Total\<close> row
  carrying the grand total (\<open>NA\<close> when the mapping has no total).
\<close>

theorem print_table_summary_then_detail:
  assumes "totals \<noteq> []"
    and "\<forall>row \<in> set indicator_rows. length row = 4"
    and "\<forall>p \<in> set totals. fst p \<noteq> ''total'' \<longrightarrow> is_float (snd p)"
  shows "map_sum id (map (table_body \<circ> table_rows)) (print_table indicator_rows totals) =
           Inr [(if AList.delete ''total'' totals = [] then []
                 else map (Row \<circ> principle_row) (AList.delete ''total'' totals) @ [Rule])
                @ [Row [CStr ''Total'',
                        (case map_of totals ''total'' of None \<Rightarrow> CStr ''NA'' | Some v \<Rightarrow> CNum v)]],
                map Row indicator_rows]"
proof -
  let ?detail0 = "\<lparr>field_names = [''ID'', ''Indicator'', ''Score'', ''Output''], table_rows = []\<rparr>"
  let ?summary0 = "\<lparr>field_names = [''FAIR principle'', ''Score''], table_rows = []\<rparr>"
  let ?ps = "AList.delete ''total'' totals"
  let ?total = "(case map_of totals ''total'' of None \<Rightarrow> CStr ''NA'' | Some v \<Rightarrow> CNum v)"
  have detail: "add_rows indicator_rows ?detail0 =
      Inr (?detail0\<lparr>table_rows := table_rows ?detail0 @ map (\<lambda>row. (row, False)) indicator_rows\<rparr>)"
    using assms(2) by (intro add_rows_ok) simp
  have floats: "\<forall>p \<in> set ?ps. is_float (snd p)"
    using assms(3) by (auto simp: AList.delete_eq)
  from summary_loop_body [of ?summary0 "length ?ps" 0 ?ps] floats
  obtain t' where t': "summary_loop (length ?ps) ?ps (0, False, ?summary0) = Inr t'"
    "field_names t' = [''FAIR principle'', ''Score'']"
    "table_body (table_rows t') =
       (if ?ps = [] then [] else map (Row \<circ> principle_row) ?ps @ [Rule])"
    by auto
  have total: "add_row [CStr ''Total'', ?total] False t' =
                 Inr (t'\<lparr>table_rows := table_rows t' @ [([CStr ''Total'', ?total], False)]\<rparr>)"
    by (simp add: add_row_def t'(2))
  have "print_table indicator_rows totals =
          Inr [t'\<lparr>table_rows := table_rows t' @ [([CStr ''Total'', ?total], False)]\<rparr>,
               ?detail0\<lparr>table_rows := table_rows ?detail0 @ map (\<lambda>row. (row, False)) indicator_rows\<rparr>]"
    unfolding print_table_def detail using assms(1) by (simp add: Let_def t'(1) total)
  then show ?thesis
    by (simp add: table_body_append t'(3) table_body_plain)
qed

theorem print_table_summary_then_detail_witness:
  "map_sum id (map (table_body \<circ> table_rows))
     (print_table [] [(''findable'', PFloat (1 / 3)), (''accessible'', PFloat 1),
                      (''total'', PFloat (2 / 3))]) =
     Inr [[Row [CStr ''Findable'', CStr ''0.33''],
           Row [CStr ''Accessible'', CStr ''1.00''],
           Rule,
           Row [CStr ''Total'', CNum (PFloat (2 / 3))]],
          []]"
proof -
  have rows: "principle_row (''findable'', PFloat (1 / 3)) = [CStr ''Findable'', CStr ''0.33'']"
    "principle_row (''accessible'', PFloat 1) = [CStr ''Accessible'', CStr ''1.00'']"
    by code_simp+
  show ?thesis
    using print_table_summary_then_detail
      [of "[(''findable'', PFloat (1 / 3)), (''accessible'', PFloat 1), (''total'', PFloat (2 / 3))]" "[]"]
    by (simp add: rows)
qed

section \<open>Claim C10: the probe and the configured endpoint\<close>

lemma readiness_loop_same_probe:
  "\<forall>n. connect_ex w' (''127.0.0.1'', 9090) n = connect_ex w (''127.0.0.1'', 9090) n \<Longrightarrow>
   readiness_loop w' is st = readiness_loop w is st"
  by (induction "is" arbitrary: st) (auto simp: is_port_open_def split: bool.splits)

text \<open>
  Claim C10: the beginning of \<open>main\<close>, up to and including the readiness probe and
  the exit after it, is the same for two runs that differ only in \<open>--api-endpoint\<close>;
  and since \<open>is_port_open\<close> takes no parameter and connects to 127.0.0.1 on port
  9090, the probe has the same outcome and the same effects in any two environments
  that answer alike on that address, whatever they answer on any other.
\<close>

theorem startup_independent_of_api_endpoint:
  "startup w (args\<lparr>arg_api_endpoint := u\<rparr>) st = startup w args st \<and>
   ((\<forall>n. connect_ex w' (''127.0.0.1'', 9090) n = connect_ex w (''127.0.0.1'', 9090) n) \<longrightarrow>
      readiness_gate w' st = readiness_gate w st)"
proof (intro conjI impI)
  show "startup w (args\<lparr>arg_api_endpoint := u\<rparr>) st = startup w args st"
    by (auto simp: startup_def resolve_endpoint_def split: option.splits)
next
  assume "\<forall>n. connect_ex w' (''127.0.0.1'', 9090) n = connect_ex w (''127.0.0.1'', 9090) n"
  then have "readiness_loop w' [1..<5] st = readiness_loop w [1..<5] st"
    by (rule readiness_loop_same_probe)
  then show "readiness_gate w' st = readiness_gate w st"
    by (simp add: readiness_gate_def)
qed

theorem startup_independent_of_api_endpoint_witness:
  "startup (ex_world ex_response)
     (ex_args\<lparr>arg_api_endpoint := ''http://203.0.113.7:8000/v1.0/rda/rda_all''\<rparr>) (init_state []) =
     startup (ex_world ex_response) ex_args (init_state []) \<and>
   readiness_gate
     ((ex_world ex_response)\<lparr>connect_ex := (\<lambda>addr n. if addr = (''127.0.0.1'', 9090) then 0 else 111)\<rparr>)
     (init_state []) =
     readiness_gate (ex_world ex_response) (init_state [])"
  using startup_independent_of_api_endpoint
    [where w = "ex_world ex_response" and args = ex_args
       and u = "''http://203.0.113.7:8000/v1.0/rda/rda_all''" and st = "init_state []"
       and w' = "(ex_world ex_response)\<lparr>connect_ex := (\<lambda>addr n. if addr = (''127.0.0.1'', 9090) then 0 else 111)\<rparr>"]
  by (simp add: ex_world_def)

end
